theory Spec2Isabelle
  imports Complex_Main
begin

section \<open>The recommendation store (db.py)\<close>

text \<open>
  The tables are modelled as maps from the primary key to the row, together with the
  table's auto-increment counter. A calendar date is its proleptic Gregorian ordinal
  (what \<^verbatim>\<open>date.toordinal()\<close> returns), a timestamp is an integer clock reading.
  The database connection is taken to be available: an exception of the driver is
  outside this model.
\<close>

type_synonym date = int
type_synonym timestamp = int

record recommendation =
  farmer_id :: nat
  doctor_id :: nat
  is_claimed :: nat
  claimed_by_shop_id :: "nat option"
  claimed_at :: "timestamp option"
  claim_notes :: "string option"
  created_at :: "timestamp option"
  updated_at :: "timestamp option"

text \<open>
  Of a row of \<^verbatim>\<open>recommendation_items\<close> the model keeps the columns the claim
  workflow reads or writes; the medicine and dosage columns only feed the text of the
  outbound message.
\<close>

record recommendation_item =
  recommendation_id :: nat
  treatment_days :: "int option"
  start_date :: "date option"
  end_date :: "date option"

record farmer =
  name :: string
  mobile_no :: "string option"

record database =
  medicine_recommendations :: "nat \<rightharpoonup> recommendation"
  next_recommendation_id :: nat
  recommendation_items :: "nat \<rightharpoonup> recommendation_item"
  next_item_id :: nat
  farmers :: "nat \<rightharpoonup> farmer"

definition get_recommendation_by_id :: "nat \<Rightarrow> database \<Rightarrow> recommendation option" where
  "get_recommendation_by_id rid db = medicine_recommendations db rid"

definition get_farmer_by_id :: "nat \<Rightarrow> database \<Rightarrow> farmer option" where
  "get_farmer_by_id fid db = farmers db fid"

text \<open>
  \<^verbatim>\<open>UPDATE medicine_recommendations SET is_claimed = 1, claimed_by_shop_id = %s,
  claimed_at = %s, claim_notes = %s, updated_at = %s WHERE id = %s AND is_claimed = 0\<close>:
  the statement and the number of rows it changed.
\<close>

definition claim_update :: "nat \<Rightarrow> nat \<Rightarrow> string option \<Rightarrow> timestamp \<Rightarrow> database \<Rightarrow> nat \<times> database" where
  "claim_update rid shop_id notes now db =
     (case medicine_recommendations db rid of
        None \<Rightarrow> (0, db)
      | Some r \<Rightarrow>
          if is_claimed r = 0
          then (1, db\<lparr>medicine_recommendations := (medicine_recommendations db)(rid \<mapsto>
                   r\<lparr>is_claimed := 1, claimed_by_shop_id := Some shop_id,
                     claimed_at := Some now, claim_notes := notes,
                     updated_at := Some now\<rparr>)\<rparr>)
          else (0, db))"

definition claim_recommendation :: "nat \<Rightarrow> nat \<Rightarrow> string option \<Rightarrow> timestamp \<Rightarrow> database \<Rightarrow> bool \<times> database" where
  "claim_recommendation rid shop_id notes now db =
     (let (affected_rows, db') = claim_update rid shop_id notes now db
      in (affected_rows > 0, db'))"

text \<open>
  Modelled from the spec: the column defaults of \<^verbatim>\<open>medicine_recommendations\<close> (its
  DDL is not part of the sources). The spec gives claimedByShopId, claimedAt and
  claimNotes as nullable and says a recommendation is created unclaimed, so a row
  inserted without them holds NULL there. What the DDL puts into
  \<^verbatim>\<open>created_at\<close> and \<^verbatim>\<open>updated_at\<close> is the parameter \<open>ts\<close>.
  The function returns \<^verbatim>\<open>cursor.lastrowid\<close>.
\<close>

definition create_recommendation :: "nat \<Rightarrow> nat \<Rightarrow> timestamp option \<Rightarrow> database \<Rightarrow> nat \<times> database" where
  "create_recommendation fid did ts db =
     (let new_id = next_recommendation_id db
      in (new_id,
          db\<lparr>medicine_recommendations := (medicine_recommendations db)(new_id \<mapsto>
                \<lparr>farmer_id = fid, doctor_id = did, is_claimed = 0,
                 claimed_by_shop_id = None, claimed_at = None, claim_notes = None,
                 created_at = ts, updated_at = ts\<rparr>),
             next_recommendation_id := Suc new_id\<rparr>))"

text \<open>
  \<^verbatim>\<open>SELECT ... FROM recommendation_items WHERE recommendation_id = %s ORDER BY id\<close>:
  the rows of the table lie below its auto-increment counter; each is returned with
  its key (the \<^verbatim>\<open>id\<close> column).
\<close>

definition get_recommendation_items_by_recommendation_id ::
    "nat \<Rightarrow> database \<Rightarrow> (nat \<times> recommendation_item) list" where
  "get_recommendation_items_by_recommendation_id rid db =
     List.map_filter
       (\<lambda>i. case recommendation_items db i of
               None \<Rightarrow> None
             | Some it \<Rightarrow> if recommendation_id it = rid then Some (i, it) else None)
       [0..<next_item_id db]"

text \<open>
  \<^verbatim>\<open>UPDATE recommendation_items SET start_date = %s, end_date = %s, updated_at = %s
  WHERE id = %s\<close>; the result says whether a row was affected.
\<close>

definition update_recommendation_item_dates :: "nat \<Rightarrow> date \<Rightarrow> date \<Rightarrow> database \<Rightarrow> bool \<times> database" where
  "update_recommendation_item_dates item_id s e db =
     (case recommendation_items db item_id of
        None \<Rightarrow> (False, db)
      | Some it \<Rightarrow>
          (True, db\<lparr>recommendation_items := (recommendation_items db)(item_id \<mapsto>
                      it\<lparr>start_date := Some s, end_date := Some e\<rparr>)\<rparr>))"

text \<open>
  A write another request of this program commits: the three statements above that
  change the two tables. The program has no statement that deletes a row.
\<close>

datatype store_op =
    ClaimOp nat nat "string option" timestamp
  | CreateOp nat nat "timestamp option"
  | ItemDatesOp nat date date

fun apply_op :: "store_op \<Rightarrow> database \<Rightarrow> database" where
  "apply_op (ClaimOp rid shop_id notes now) db = snd (claim_recommendation rid shop_id notes now db)"
| "apply_op (CreateOp fid did ts) db = snd (create_recommendation fid did ts db)"
| "apply_op (ItemDatesOp item_id s e) db = snd (update_recommendation_item_dates item_id s e db)"

definition apply_ops :: "store_op list \<Rightarrow> database \<Rightarrow> database" where
  "apply_ops ops db = fold apply_op ops db"

subsection \<open>The states the store's write operations reach\<close>

definition empty_database :: database where
  "empty_database =
     \<lparr>medicine_recommendations = Map.empty, next_recommendation_id = 1,
      recommendation_items = Map.empty, next_item_id = 1, farmers = Map.empty\<rparr>"

inductive store_write :: "database \<Rightarrow> database \<Rightarrow> bool" where
  write_create: "store_write db (snd (create_recommendation fid did ts db))"
| write_claim: "store_write db (snd (claim_recommendation rid shop_id notes now db))"

inductive reachable :: "database \<Rightarrow> bool" where
  reach_empty: "reachable empty_database"
| reach_write: "reachable db \<Longrightarrow> store_write db db' \<Longrightarrow> reachable db'"

definition claim_invariant :: "recommendation \<Rightarrow> bool" where
  "claim_invariant r \<longleftrightarrow>
     ((is_claimed r = 0) = (claimed_by_shop_id r = None \<and> claimed_at r = None))"

definition keys_below_counter :: "database \<Rightarrow> bool" where
  "keys_below_counter db \<longleftrightarrow>
     (\<forall>k. medicine_recommendations db k \<noteq> None \<longrightarrow> k < next_recommendation_id db)"

section \<open>The notification dispatcher (app.py, send_whatsapp_message)\<close>

text \<open>
  The gateway is an oracle: what the \<open>n\<close>-th call of \<^verbatim>\<open>requests.post\<close>
  (counted from 0) does. It answers with an HTTP status or raises; the exceptions carry
  the text \<^verbatim>\<open>str(e)\<close> gives. \<open>Timeout\<close> and \<open>ConnectionError\<close> are the two
  classes the loop catches, \<open>RequestException\<close> is any other exception of the
  \<^verbatim>\<open>requests\<close> library, \<open>OtherException\<close> anything else.
\<close>

datatype gateway_outcome =
    Status nat
  | Timeout string
  | ConnectionError string
  | RequestException string
  | OtherException string

text \<open>
  An exception that leaves the retry loop: the first outer handler of
  \<^verbatim>\<open>send_whatsapp_message\<close> takes a \<^verbatim>\<open>RequestException\<close>, the second anything
  else.
\<close>

datatype escaped = NetworkError string | UnexpectedError string

text \<open>What the program does to the outside, in the order it does it.\<close>

datatype event =
    StoreClaim nat nat bool
  | StoreItemDates nat date date
  | GatewayPost string
  | Sleep rat

record config =
  WHATSAPP_ENABLED :: bool
  WHATSAPP_MAX_RETRIES :: int

definition digit_char :: "nat \<Rightarrow> char" where
  "digit_char n = ''0123456789'' ! (n mod 10)"

function str_nat :: "nat \<Rightarrow> string" where
  "str_nat n = (if n < 10 then [digit_char n] else str_nat (n div 10) @ [digit_char n])"
  by pat_completeness auto
termination
  by (relation "measure id") auto

declare str_nat.simps [simp del]

definition str_int :: "int \<Rightarrow> string" where
  "str_int i = (if i < 0 then CHR ''-'' # str_nat (nat (- i)) else str_nat (nat i))"

text \<open>
  \<^verbatim>\<open>mobile = re.sub(r'[^\d+]', '', farmer_mobile)\<close>, then one leading \<^verbatim>\<open>+\<close>
  is dropped.
\<close>

definition clean_mobile :: "string \<Rightarrow> string" where
  "clean_mobile farmer_mobile =
     (let mobile = filter (\<lambda>c. c \<in> set ''0123456789+'') farmer_mobile
      in case mobile of
           [] \<Rightarrow> []
         | c # cs \<Rightarrow> if c = CHR ''+'' then cs else mobile)"

text \<open>
  The loop \<^verbatim>\<open>for attempt in range(max_retries)\<close>. The fourth argument counts the
  iterations that are left, the fifth is \<^verbatim>\<open>attempt\<close>, the sixth
  \<^verbatim>\<open>retry_delay\<close>. The result is \<open>Inl\<close> for an exception that leaves the loop,
  \<open>Inr (Some (delivered, detail))\<close> for a \<^verbatim>\<open>return\<close>, and \<open>Inr None\<close>
  when the loop runs to its end without returning.
\<close>

fun attempt_loop ::
    "int \<Rightarrow> (nat \<Rightarrow> gateway_outcome) \<Rightarrow> string \<Rightarrow> nat \<Rightarrow> nat \<Rightarrow> rat
      \<Rightarrow> (escaped + (bool \<times> string) option) \<times> event list" where
  "attempt_loop max_retries gateway mobile 0 attempt retry_delay = (Inr None, [])"
| "attempt_loop max_retries gateway mobile (Suc k) attempt retry_delay =
     (case gateway attempt of
        Status status_code \<Rightarrow>
          if status_code = 200 then
            (Inr (Some (True, ''WhatsApp message sent successfully (attempt ''
                              @ str_nat (attempt + 1) @ '')'')),
             [GatewayPost mobile])
          else if status_code = 429 then
            (if int attempt < max_retries - 1 then
               (let (r, tr) = attempt_loop max_retries gateway mobile k (Suc attempt) retry_delay
                in (r, GatewayPost mobile # Sleep (retry_delay * 2) # tr))
             else
               (let (r, tr) = attempt_loop max_retries gateway mobile k (Suc attempt) retry_delay
                in (r, GatewayPost mobile # tr)))
          else
            (Inr (Some (False, ''Failed to send WhatsApp message: HTTP '' @ str_nat status_code)),
             [GatewayPost mobile])
      | Timeout e \<Rightarrow>
          if int attempt < max_retries - 1 then
            (let (r, tr) = attempt_loop max_retries gateway mobile k (Suc attempt)
                             (retry_delay * (3 / 2))
             in (r, GatewayPost mobile # Sleep retry_delay # tr))
          else
            (Inr (Some (False, ''WhatsApp API timeout after '' @ str_int max_retries
                               @ '' attempts'')),
             [GatewayPost mobile])
      | ConnectionError e \<Rightarrow>
          if int attempt < max_retries - 1 then
            (let (r, tr) = attempt_loop max_retries gateway mobile k (Suc attempt) retry_delay
             in (r, GatewayPost mobile # Sleep retry_delay # tr))
          else
            (Inr (Some (False, ''WhatsApp API connection failed after '' @ str_int max_retries
                               @ '' attempts'')),
             [GatewayPost mobile])
      | RequestException e \<Rightarrow> (Inl (NetworkError e), [GatewayPost mobile])
      | OtherException e \<Rightarrow> (Inl (UnexpectedError e), [GatewayPost mobile]))"

text \<open>
  \<^verbatim>\<open>send_whatsapp_message\<close>. The message text (farmer name, medicine names, dosages,
  dates) is built from strings only and decides no branch; the model keeps the cleaned
  phone number. The result \<open>None\<close> is Python's \<^verbatim>\<open>None\<close>: the function body ended
  without a \<^verbatim>\<open>return\<close>. The two outer handlers turn an exception that left the loop
  into a pair.
\<close>

definition send_whatsapp_message ::
    "config \<Rightarrow> (nat \<Rightarrow> gateway_outcome) \<Rightarrow> string \<Rightarrow> (bool \<times> string) option \<times> event list" where
  "send_whatsapp_message cfg gateway farmer_mobile =
     (let mobile = clean_mobile farmer_mobile in
      if \<not> WHATSAPP_ENABLED cfg then
        (Some (False, ''WhatsApp messaging is disabled in configuration''), [])
      else
        (let max_retries = WHATSAPP_MAX_RETRIES cfg
         in case attempt_loop max_retries gateway mobile (nat max_retries) 0 2 of
              (Inr r, tr) \<Rightarrow> (r, tr)
            | (Inl (NetworkError e), tr) \<Rightarrow> (Some (False, ''Network error: '' @ e), tr)
            | (Inl (UnexpectedError e), tr) \<Rightarrow>
                (Some (False, ''Unexpected error: '' @ e), tr)))"

section \<open>The treatment dates and the claim endpoint (app.py, claim_recommendation_route)\<close>

text \<open>
  The exceptions the body of the route can raise; all of them end in the route's outer
  handler. \<open>ValueError\<close>: \<^verbatim>\<open>max()\<close> of an empty sequence. \<open>TypeError\<close>:
  \<^verbatim>\<open>None - 1\<close>, or subscripting \<^verbatim>\<open>None\<close>. \<open>OverflowError\<close>: a
  \<^verbatim>\<open>timedelta\<close> or a date out of range.
\<close>

datatype exn = ValueError | TypeError | OverflowError

text \<open>
  \<^verbatim>\<open>d + timedelta(days=n)\<close>: \<^verbatim>\<open>timedelta\<close> takes at most 999999999 days, and a
  date lies between \<^verbatim>\<open>date.min\<close> (ordinal 1) and \<^verbatim>\<open>date.max\<close> (ordinal 3652059).
\<close>

definition add_days :: "date \<Rightarrow> int \<Rightarrow> exn + date" where
  "add_days d n =
     (if \<bar>n\<bar> > 999999999 then Inl OverflowError
      else if 1 \<le> d + n \<and> d + n \<le> 3652059 then Inr (d + n)
      else Inl OverflowError)"

text \<open>
  \<^verbatim>\<open>[item['treatment_days'] for item in recommendation_items if item['treatment_days']]\<close>:
  NULL and 0 are falsy.
\<close>

definition usable_treatment_days :: "(nat \<times> recommendation_item) list \<Rightarrow> int list" where
  "usable_treatment_days items =
     List.map_filter
       (\<lambda>(i, it). case treatment_days it of
                    None \<Rightarrow> None
                  | Some d \<Rightarrow> if d \<noteq> 0 then Some d else None)
       items"

definition max_treatment_days_of :: "(nat \<times> recommendation_item) list \<Rightarrow> exn + int" where
  "max_treatment_days_of items =
     (case usable_treatment_days items of
        [] \<Rightarrow> Inl ValueError
      | d # ds \<Rightarrow> Inr (fold max ds d))"

text \<open>
  The loop that writes the dates of the items, one
  \<^verbatim>\<open>update_recommendation_item_dates\<close> per item; \<^verbatim>\<open>item['treatment_days'] - 1\<close>
  raises on NULL.
\<close>

fun update_items ::
    "date \<Rightarrow> (nat \<times> recommendation_item) list \<Rightarrow> database \<Rightarrow> exn option \<times> database \<times> event list" where
  "update_items start [] db = (None, db, [])"
| "update_items start ((item_id, it) # rest) db =
     (case treatment_days it of
        None \<Rightarrow> (Some TypeError, db, [])
      | Some d \<Rightarrow>
          (case add_days start (d - 1) of
             Inl e \<Rightarrow> (Some e, db, [])
           | Inr item_end_date \<Rightarrow>
               (let (x, db', tr) =
                      update_items start rest
                        (snd (update_recommendation_item_dates item_id start item_end_date db))
                in (x, db', StoreItemDates item_id start item_end_date # tr))))"

text \<open>
  The notification part of the route: the farmer is looked up, and the dispatcher is
  called only for a farmer with a non-empty mobile number. Unpacking the dispatcher's
  result raises when it is \<^verbatim>\<open>None\<close>; the inner handler catches that.
\<close>

definition notify ::
    "config \<Rightarrow> (nat \<Rightarrow> gateway_outcome) \<Rightarrow> recommendation \<Rightarrow> database \<Rightarrow> bool \<times> string \<times> event list" where
  "notify cfg gateway recommendation db =
     (case get_farmer_by_id (farmer_id recommendation) db of
        None \<Rightarrow> (False, ''Farmer mobile number not available'', [])
      | Some farmer \<Rightarrow>
          (case mobile_no farmer of
             None \<Rightarrow> (False, ''Farmer mobile number not available'', [])
           | Some mobile \<Rightarrow>
               if mobile = [] then (False, ''Farmer mobile number not available'', [])
               else
                 (case send_whatsapp_message cfg gateway mobile of
                    (Some (success, message), tr) \<Rightarrow> (success, message, tr)
                  | (None, tr) \<Rightarrow>
                      (False, ''WhatsApp failed: cannot unpack non-iterable NoneType object'', tr))))"

text \<open>
  The request as the route reads it: the shop id of the session and the two keys of
  the JSON body (\<open>None\<close>: the key is absent). The response is a status with a body;
  \<open>Failed e\<close> is the body \<^verbatim>\<open>{'error': f'Failed to claim recommendation: {str(e)}'}\<close>
  of the outer handler.
\<close>

record request =
  session_shop_id :: "nat option"
  json_start_date :: "string option"
  json_notes :: "string option"

record claim_result =
  res_recommendation_id :: nat
  res_shop_id :: nat
  res_claimed_at :: timestamp
  res_start_date :: date
  res_end_date :: date
  res_max_treatment_days :: int
  res_notes :: string
  whatsapp_sent :: bool
  whatsapp_message :: string

datatype body = Error string | Failed exn | Claimed claim_result

record response =
  status :: nat
  body :: body

text \<open>
  What the route takes from outside the program: the library's date parser
  (\<^verbatim>\<open>datetime.strptime(s, '%Y-%m-%d').date()\<close>, \<open>None\<close> for \<^verbatim>\<open>ValueError\<close>), the
  clock, the gateway, and the writes other requests commit between this request's
  reads and its conditional update (the window in which a claim can be lost).
\<close>

record world =
  strptime :: "string \<Rightarrow> date option"
  clock :: timestamp
  gateway :: "nat \<Rightarrow> gateway_outcome"
  concurrent_writes :: "store_op list"

text \<open>\<^verbatim>\<open>notes = data.get('notes', '')\<close>\<close>

definition request_notes :: "request \<Rightarrow> string" where
  "request_notes req = (case json_notes req of None \<Rightarrow> [] | Some n \<Rightarrow> n)"

definition claim_recommendation_route ::
    "config \<Rightarrow> world \<Rightarrow> nat \<Rightarrow> request \<Rightarrow> database \<Rightarrow> response \<times> database \<times> event list" where
  "claim_recommendation_route cfg w rid req db =
     (case session_shop_id req of
        None \<Rightarrow> (\<lparr>status = 401, body = Error ''Shop not logged in''\<rparr>, db, [])
      | Some shop_id \<Rightarrow>
        if shop_id = 0 then (\<lparr>status = 401, body = Error ''Shop not logged in''\<rparr>, db, [])
        else
        (case get_recommendation_by_id rid db of
           None \<Rightarrow> (\<lparr>status = 404, body = Error ''Recommendation not found''\<rparr>, db, [])
         | Some recommendation \<Rightarrow>
           if is_claimed recommendation \<noteq> 0 then
             (\<lparr>status = 400, body = Error ''Recommendation already claimed''\<rparr>, db, [])
           else
           (let notes = request_notes req in
            case json_start_date req of
              None \<Rightarrow> (\<lparr>status = 400, body = Error ''Start date is required''\<rparr>, db, [])
            | Some start_date_str \<Rightarrow>
              if start_date_str = [] then
                (\<lparr>status = 400, body = Error ''Start date is required''\<rparr>, db, [])
              else
              (case strptime w start_date_str of
                 None \<Rightarrow>
                   (\<lparr>status = 400, body = Error ''Invalid date format. Use YYYY-MM-DD''\<rparr>, db, [])
               | Some start \<Rightarrow>
                 (let items = get_recommendation_items_by_recommendation_id rid db in
                  if items = [] then
                    (\<lparr>status = 404, body = Error ''No recommendation items found''\<rparr>, db, [])
                  else
                  (case max_treatment_days_of items of
                     Inl e \<Rightarrow> (\<lparr>status = 500, body = Failed e\<rparr>, db, [])
                   | Inr max_treatment_days \<Rightarrow>
                     (case add_days start (max_treatment_days - 1) of
                        Inl e \<Rightarrow> (\<lparr>status = 500, body = Failed e\<rparr>, db, [])
                      | Inr end \<Rightarrow>
                        (let (claim_success, db1) =
                               claim_recommendation rid shop_id (Some notes) (clock w)
                                 (apply_ops (concurrent_writes w) db)
                         in
                         if \<not> claim_success then
                           (\<lparr>status = 500, body = Error ''Failed to claim recommendation''\<rparr>,
                            db1, [StoreClaim rid shop_id False])
                         else
                         (case update_items start items db1 of
                            (Some e, db2, tr) \<Rightarrow>
                              (\<lparr>status = 500, body = Failed e\<rparr>, db2,
                               StoreClaim rid shop_id True # tr)
                          | (None, db2, tr) \<Rightarrow>
                            (let (sent, message, tr') = notify cfg (gateway w) recommendation db2
                             in case get_recommendation_by_id rid db2 of
                                  None \<Rightarrow>
                                    (\<lparr>status = 500, body = Failed TypeError\<rparr>, db2,
                                     StoreClaim rid shop_id True # tr @ tr')
                                | Some updated \<Rightarrow>
                                    (\<lparr>status = 200,
                                      body = Claimed
                                        \<lparr>res_recommendation_id = rid,
                                         res_shop_id = shop_id,
                                         res_claimed_at =
                                           (case claimed_at updated of
                                              Some t \<Rightarrow> t | None \<Rightarrow> clock w),
                                         res_start_date = start,
                                         res_end_date = end,
                                         res_max_treatment_days = max_treatment_days,
                                         res_notes = notes,
                                         whatsapp_sent = sent,
                                         whatsapp_message = message\<rparr>\<rparr>,
                                     db2, StoreClaim rid shop_id True # tr @ tr')))))))))))"

text \<open>
  The checks of the route in the order it makes them. \<open>request_accepted\<close>: the shop
  is logged in, the recommendation is there and was read unclaimed, and the start date
  parses. \<open>ready_to_claim\<close>: moreover there are items, and the largest usable
  treatment length and the end date could be computed, so that the next statement is
  the call of \<^verbatim>\<open>claim_recommendation\<close>.
\<close>

definition request_accepted ::
    "world \<Rightarrow> nat \<Rightarrow> request \<Rightarrow> database \<Rightarrow> nat \<Rightarrow> recommendation \<Rightarrow> date \<Rightarrow> bool" where
  "request_accepted w rid req db shop_id r start \<longleftrightarrow>
     session_shop_id req = Some shop_id \<and> shop_id \<noteq> 0 \<and>
     get_recommendation_by_id rid db = Some r \<and> is_claimed r = 0 \<and>
     (case json_start_date req of
        None \<Rightarrow> False
      | Some start_date_str \<Rightarrow> start_date_str \<noteq> [] \<and> strptime w start_date_str = Some start)"

definition ready_to_claim ::
    "world \<Rightarrow> nat \<Rightarrow> request \<Rightarrow> database \<Rightarrow> nat \<Rightarrow> recommendation \<Rightarrow> date \<Rightarrow> int \<Rightarrow> date \<Rightarrow> bool" where
  "ready_to_claim w rid req db shop_id r start m e \<longleftrightarrow>
     request_accepted w rid req db shop_id r start \<and>
     get_recommendation_items_by_recommendation_id rid db \<noteq> [] \<and>
     max_treatment_days_of (get_recommendation_items_by_recommendation_id rid db) = Inr m \<and>
     add_days start (m - 1) = Inr e"

text \<open>The treatment days of all items that have them, zero and negative values included.\<close>

definition all_treatment_days :: "(nat \<times> recommendation_item) list \<Rightarrow> int list" where
  "all_treatment_days items = List.map_filter (\<lambda>(i, it). treatment_days it) items"

section \<open>Example data\<close>

text \<open>
  Recommendation 1 of farmer 3, unclaimed, with one item per entry of the list (its
  treatment days); shop 7 asks to claim it from 2024-01-01 (ordinal 738886).
\<close>

definition example_recommendation :: recommendation where
  "example_recommendation =
     \<lparr>farmer_id = 3, doctor_id = 4, is_claimed = 0, claimed_by_shop_id = None,
      claimed_at = None, claim_notes = None, created_at = None, updated_at = None\<rparr>"

definition example_item :: "int option \<Rightarrow> recommendation_item" where
  "example_item d =
     \<lparr>recommendation_id = 1, treatment_days = d, start_date = None, end_date = None\<rparr>"

definition example_database :: "int option list \<Rightarrow> (nat \<rightharpoonup> farmer) \<Rightarrow> database" where
  "example_database ds fs =
     \<lparr>medicine_recommendations = [1 \<mapsto> example_recommendation],
      next_recommendation_id = 2,
      recommendation_items =
        (\<lambda>i. if 1 \<le> i \<and> i \<le> length ds then Some (example_item (ds ! (i - 1))) else None),
      next_item_id = Suc (length ds),
      farmers = fs\<rparr>"

definition example_farmers :: "nat \<rightharpoonup> farmer" where
  "example_farmers = [3 \<mapsto> \<lparr>name = ''Ravi'', mobile_no = Some ''+91 98765''\<rparr>]"

definition example_world :: "(nat \<Rightarrow> gateway_outcome) \<Rightarrow> store_op list \<Rightarrow> world" where
  "example_world g ops =
     \<lparr>strptime = (\<lambda>s. if s = ''2024-01-01'' then Some 738886 else None),
      clock = 1000, gateway = g, concurrent_writes = ops\<rparr>"

definition example_request :: request where
  "example_request =
     \<lparr>session_shop_id = Some 7, json_start_date = Some ''2024-01-01'', json_notes = None\<rparr>"

definition example_config :: config where
  "example_config = \<lparr>WHATSAPP_ENABLED = True, WHATSAPP_MAX_RETRIES = 3\<rparr>"

definition example_claimed_database :: database where
  "example_claimed_database =
     snd (claim_recommendation 1 7 (Some ''paid'') 1000
            (snd (create_recommendation 3 4 None empty_database)))"

section \<open>Properties of the store\<close>

lemma claim_recommendation_result:
  "fst (claim_recommendation rid shop_id notes now db) \<longleftrightarrow>
     (\<exists>r. medicine_recommendations db rid = Some r \<and> is_claimed r = 0)"
  by (auto simp: claim_recommendation_def claim_update_def split: option.splits)

lemma claim_recommendation_false:
  "\<not> fst (claim_recommendation rid shop_id notes now db) \<Longrightarrow>
     snd (claim_recommendation rid shop_id notes now db) = db"
  by (auto simp: claim_recommendation_def claim_update_def split: option.splits)

lemma claim_recommendation_true:
  assumes "medicine_recommendations db rid = Some r" and "is_claimed r = 0"
  shows "claim_recommendation rid shop_id notes now db =
           (True, db\<lparr>medicine_recommendations := (medicine_recommendations db)(rid \<mapsto>
                   r\<lparr>is_claimed := 1, claimed_by_shop_id := Some shop_id,
                     claimed_at := Some now, claim_notes := notes,
                     updated_at := Some now\<rparr>)\<rparr>)"
  using assms by (simp add: claim_recommendation_def claim_update_def)

lemma claim_recommendation_other_tables:
  "recommendation_items (snd (claim_recommendation rid shop_id notes now db)) = recommendation_items db
   \<and> next_item_id (snd (claim_recommendation rid shop_id notes now db)) = next_item_id db
   \<and> farmers (snd (claim_recommendation rid shop_id notes now db)) = farmers db
   \<and> next_recommendation_id (snd (claim_recommendation rid shop_id notes now db)) = next_recommendation_id db"
  by (auto simp: claim_recommendation_def claim_update_def split: option.splits)

text \<open>
  C1. \<^verbatim>\<open>claim_recommendation(id, shopId, notes)\<close> is one conditional update. It
  returns true exactly when the stored recommendation with that id has
  \<^verbatim>\<open>is_claimed = 0\<close>, and exactly when the row changed. When it returns true the row
  holds \<^verbatim>\<open>is_claimed = 1\<close>, \<^verbatim>\<open>claimed_by_shop_id = shopId\<close>,
  \<^verbatim>\<open>claimed_at = now\<close> and \<^verbatim>\<open>claim_notes = notes\<close>, its farmer and doctor are
  untouched and so is every other row. When it returns false (unknown id, or
  \<^verbatim>\<open>is_claimed\<close> already 1) the database is unchanged.
\<close>

theorem claim_recommendation_conditional_update:
  assumes res: "claim_recommendation rid shop_id notes now db = (ok, db')"
  shows "(ok \<longleftrightarrow> (\<exists>r. get_recommendation_by_id rid db = Some r \<and> is_claimed r = 0))
       \<and> (ok \<longleftrightarrow> get_recommendation_by_id rid db' \<noteq> get_recommendation_by_id rid db)
       \<and> (ok \<longrightarrow> (\<exists>r r'. get_recommendation_by_id rid db = Some r
                \<and> get_recommendation_by_id rid db' = Some r'
                \<and> is_claimed r' = 1 \<and> claimed_by_shop_id r' = Some shop_id
                \<and> claimed_at r' = Some now \<and> claim_notes r' = notes
                \<and> farmer_id r' = farmer_id r \<and> doctor_id r' = doctor_id r
                \<and> created_at r' = created_at r))
       \<and> (\<forall>k. k \<noteq> rid \<longrightarrow> get_recommendation_by_id k db' = get_recommendation_by_id k db)
       \<and> (\<not> ok \<longrightarrow> db' = db)"
proof (cases "\<exists>r. medicine_recommendations db rid = Some r \<and> is_claimed r = 0")
  case True
  then obtain r where r: "medicine_recommendations db rid = Some r" "is_claimed r = 0"
    by blast
  have neq: "r\<lparr>is_claimed := 1, claimed_by_shop_id := Some shop_id,
               claimed_at := Some now, claim_notes := notes, updated_at := Some now\<rparr> \<noteq> r"
  proof
    assume "r\<lparr>is_claimed := 1, claimed_by_shop_id := Some shop_id,
               claimed_at := Some now, claim_notes := notes, updated_at := Some now\<rparr> = r"
    then have "is_claimed (r\<lparr>is_claimed := 1, claimed_by_shop_id := Some shop_id,
               claimed_at := Some now, claim_notes := notes, updated_at := Some now\<rparr>) = is_claimed r"
      by simp
    with r(2) show False by simp
  qed
  from res have "ok" and "db' = db\<lparr>medicine_recommendations := (medicine_recommendations db)(rid \<mapsto>
                   r\<lparr>is_claimed := 1, claimed_by_shop_id := Some shop_id,
                     claimed_at := Some now, claim_notes := notes,
                     updated_at := Some now\<rparr>)\<rparr>"
    unfolding claim_recommendation_true [OF r] by simp_all
  then show ?thesis
    unfolding get_recommendation_by_id_def using r neq by simp
next
  case False
  then have f: "\<not> fst (claim_recommendation rid shop_id notes now db)"
    by (simp add: claim_recommendation_result)
  from claim_recommendation_false [OF f] f False res show ?thesis
    unfolding get_recommendation_by_id_def by simp
qed

text \<open>The same on the example: shop 7 claims recommendation 1, which is unclaimed.\<close>

theorem claim_recommendation_conditional_update_witness:
  "fst (claim_recommendation 1 7 (Some ''paid'') 1000 (example_database [Some 5] example_farmers))
   \<and> map_option (\<lambda>r. (is_claimed r, claimed_by_shop_id r, claimed_at r, claim_notes r))
        (get_recommendation_by_id 1
           (snd (claim_recommendation 1 7 (Some ''paid'') 1000 (example_database [Some 5] example_farmers))))
      = Some (1, Some 7, Some 1000, Some ''paid'')"
proof -
  have ok: "fst (claim_recommendation 1 7 (Some ''paid'') 1000 (example_database [Some 5] example_farmers))"
    by (simp add: claim_recommendation_def claim_update_def example_database_def
          example_recommendation_def)
  from claim_recommendation_conditional_update [OF prod.collapse [symmetric]] ok
  show ?thesis by fastforce
qed

subsection \<open>The claim state of a recommendation\<close>

lemma store_write_keys_below_counter:
  assumes "store_write db db'" and "keys_below_counter db"
  shows "keys_below_counter db'"
  using assms
proof (cases rule: store_write.cases)
  case (write_create fid did ts)
  with assms(2) show ?thesis
    by (auto simp: keys_below_counter_def create_recommendation_def Let_def less_Suc_eq)
next
  case (write_claim rid shop_id nts now)
  with assms(2) show ?thesis
    by (auto simp: keys_below_counter_def claim_recommendation_def claim_update_def
          split: option.splits if_splits)
qed

lemma store_write_claim_invariant:
  assumes "store_write db db'"
    and "\<forall>k r. medicine_recommendations db k = Some r \<longrightarrow> claim_invariant r \<and> is_claimed r \<le> 1"
  shows "\<forall>k r. medicine_recommendations db' k = Some r \<longrightarrow> claim_invariant r \<and> is_claimed r \<le> 1"
  using assms
proof (cases rule: store_write.cases)
  case (write_create fid did ts)
  with assms(2) show ?thesis
    by (auto simp: claim_invariant_def create_recommendation_def Let_def split: if_splits)
next
  case (write_claim rid shop_id nts now)
  with assms(2) show ?thesis
    by (auto simp: claim_invariant_def claim_recommendation_def claim_update_def
          split: option.splits if_splits)
qed

lemma store_write_keeps_claimed:
  assumes "store_write db db'" and "keys_below_counter db"
    and "medicine_recommendations db k = Some r" and "is_claimed r \<noteq> 0"
  shows "medicine_recommendations db' k = Some r"
  using assms
proof (cases rule: store_write.cases)
  case (write_create fid did ts)
  from assms(2,3) have "k \<noteq> next_recommendation_id db"
    by (auto simp: keys_below_counter_def)
  with write_create assms(3) show ?thesis
    by (simp add: create_recommendation_def Let_def)
next
  case (write_claim rid shop_id nts now)
  with assms(3,4) show ?thesis
    by (auto simp: claim_recommendation_def claim_update_def split: option.splits)
qed

lemma store_write_keeps_rows:
  assumes "store_write db db'" and "keys_below_counter db"
    and "medicine_recommendations db k = Some r"
  shows "\<exists>r'. medicine_recommendations db' k = Some r'"
  using assms
proof (cases rule: store_write.cases)
  case (write_create fid did ts)
  from assms(2,3) have "k \<noteq> next_recommendation_id db"
    by (auto simp: keys_below_counter_def)
  with write_create assms(3) show ?thesis
    by (simp add: create_recommendation_def Let_def)
next
  case (write_claim rid shop_id nts now)
  with assms(3) show ?thesis
    by (auto simp: claim_recommendation_def claim_update_def split: option.splits)
qed

lemma writes_keep_rows:
  assumes "store_write\<^sup>*\<^sup>* db db'"
  shows "keys_below_counter db \<Longrightarrow> medicine_recommendations db k = Some r
         \<Longrightarrow> keys_below_counter db' \<and> (\<exists>r'. medicine_recommendations db' k = Some r')"
  using assms
proof (induction rule: rtranclp_induct)
  case base
  then show ?case by simp
next
  case (step y z)
  then show ?case
    using store_write_keys_below_counter store_write_keeps_rows by blast
qed

lemma reachable_invariants:
  "reachable db \<Longrightarrow>
     keys_below_counter db \<and>
     (\<forall>k r. medicine_recommendations db k = Some r \<longrightarrow> claim_invariant r \<and> is_claimed r \<le> 1)"
proof (induction rule: reachable.induct)
  case reach_empty
  show ?case by (simp add: keys_below_counter_def empty_database_def)
next
  case (reach_write db db')
  then show ?case
    using store_write_keys_below_counter store_write_claim_invariant by blast
qed

lemma writes_keep_claimed:
  assumes "store_write\<^sup>*\<^sup>* db db'"
  shows "keys_below_counter db \<Longrightarrow> medicine_recommendations db k = Some r \<Longrightarrow> is_claimed r \<noteq> 0
         \<Longrightarrow> keys_below_counter db' \<and> medicine_recommendations db' k = Some r"
  using assms
proof (induction rule: rtranclp_induct)
  case base
  then show ?case by simp
next
  case (step y z)
  then show ?case
    using store_write_keys_below_counter store_write_keeps_claimed by blast
qed

text \<open>
  C7. In every state the write operations \<^verbatim>\<open>create_recommendation\<close> and
  \<^verbatim>\<open>claim_recommendation\<close> reach from the empty store, a recommendation has
  \<^verbatim>\<open>is_claimed = 0\<close> exactly when \<^verbatim>\<open>claimed_by_shop_id\<close> and
  \<^verbatim>\<open>claimed_at\<close> are both NULL, and \<^verbatim>\<open>is_claimed\<close> is 0 or 1. Whatever
  writes follow, the row stays in the table, and a claimed row stays as it is: it is
  never unclaimed again and never given to another shop, so the step from unclaimed
  to claimed happens at most once.
\<close>

theorem claim_state_invariant_and_monotone:
  assumes "reachable db" and "store_write\<^sup>*\<^sup>* db db'"
    and "get_recommendation_by_id k db = Some r"
  shows "(is_claimed r = 0 \<longleftrightarrow> claimed_by_shop_id r = None \<and> claimed_at r = None)
       \<and> is_claimed r \<le> 1
       \<and> (is_claimed r \<noteq> 0 \<longrightarrow> get_recommendation_by_id k db' = Some r)
       \<and> (\<exists>r'. get_recommendation_by_id k db' = Some r')"
proof -
  from reachable_invariants [OF assms(1)] assms(3)
  have kb: "keys_below_counter db" and inv: "claim_invariant r" "is_claimed r \<le> 1"
    by (auto simp: get_recommendation_by_id_def)
  have stay: "is_claimed r \<noteq> 0 \<longrightarrow> get_recommendation_by_id k db' = Some r"
    using writes_keep_claimed [OF assms(2) kb] assms(3)
    by (simp add: get_recommendation_by_id_def)
  have row: "\<exists>r'. get_recommendation_by_id k db' = Some r'"
    using writes_keep_rows [OF assms(2) kb] assms(3)
    by (simp add: get_recommendation_by_id_def)
  show ?thesis using inv stay row by (simp add: claim_invariant_def)
qed

text \<open>
  On the example: recommendation 1 was claimed by shop 7; the later claim of shop 9
  leaves it with shop 7.
\<close>

theorem claim_state_invariant_and_monotone_witness:
  "map_option (\<lambda>r. (is_claimed r, claimed_by_shop_id r, claimed_at r))
     (get_recommendation_by_id 1 (snd (claim_recommendation 1 9 None 2000 example_claimed_database)))
   = Some (1, Some 7, Some 1000)"
proof -
  have r: "reachable example_claimed_database"
    unfolding example_claimed_database_def
    by (rule reach_write [OF reach_write [OF reach_empty write_create] write_claim])
  have w: "store_write\<^sup>*\<^sup>* example_claimed_database
             (snd (claim_recommendation 1 9 None 2000 example_claimed_database))"
    by (rule r_into_rtranclp) (rule write_claim)
  have g: "get_recommendation_by_id 1 example_claimed_database =
             Some \<lparr>farmer_id = 3, doctor_id = 4, is_claimed = 1, claimed_by_shop_id = Some 7,
                   claimed_at = Some 1000, claim_notes = Some ''paid'', created_at = None,
                   updated_at = Some 1000\<rparr>"
    by (simp add: example_claimed_database_def get_recommendation_by_id_def
          claim_recommendation_def claim_update_def create_recommendation_def empty_database_def)
  from claim_state_invariant_and_monotone [OF r w g] show ?thesis by simp
qed

section \<open>Properties of the notification dispatcher\<close>

lemma str_nat_examples:
  "str_nat (Suc 0) = ''1''" "str_nat 201 = ''201''" "str_nat 400 = ''400''"
  by code_simp+

lemma str_int_3: "str_int 3 = ''3''"
  by code_simp

lemma clean_mobile_example: "clean_mobile ''+91 98765'' = ''9198765''"
  by code_simp

lemma attempt_loop_all_rate_limited:
  "(\<And>n. gw n = Status 429) \<Longrightarrow>
     fst (attempt_loop max_retries gw mobile k attempt retry_delay) = Inr None"
  by (induction k arbitrary: attempt retry_delay) (simp_all add: split_beta)

lemma send_whatsapp_message_all_rate_limited:
  assumes "WHATSAPP_ENABLED cfg" and "\<And>n. gw n = Status 429"
  shows "fst (send_whatsapp_message cfg gw farmer_mobile) = None"
proof -
  obtain r tr where l:
    "attempt_loop (WHATSAPP_MAX_RETRIES cfg) gw (clean_mobile farmer_mobile)
       (nat (WHATSAPP_MAX_RETRIES cfg)) 0 2 = (r, tr)"
    by (cases "attempt_loop (WHATSAPP_MAX_RETRIES cfg) gw (clean_mobile farmer_mobile)
                 (nat (WHATSAPP_MAX_RETRIES cfg)) 0 2")
  have "fst (attempt_loop (WHATSAPP_MAX_RETRIES cfg) gw (clean_mobile farmer_mobile)
               (nat (WHATSAPP_MAX_RETRIES cfg)) 0 2) = Inr None"
    by (rule attempt_loop_all_rate_limited) (rule assms(2))
  with l have "r = Inr None" by simp
  with l assms(1) show ?thesis by (simp add: send_whatsapp_message_def)
qed

text \<open>
  C5. The claim is that \<^verbatim>\<open>send_whatsapp_message\<close> always returns a pair
  (delivered, detail). With the dispatcher enabled, three attempts allowed and a
  gateway that answers 429 each time, the branch for 429 neither returns nor retries
  on the last attempt: the loop ends, the function body ends, and the result is
  Python's \<^verbatim>\<open>None\<close>, after three requests. (No exception reaches the caller: the
  function is total in the model.)
\<close>

theorem rate_limited_to_the_end_returns_none:
  "send_whatsapp_message example_config (\<lambda>n. Status 429) ''+91 98765'' =
     (None, [GatewayPost ''9198765'', Sleep 4, GatewayPost ''9198765'', Sleep 4,
             GatewayPost ''9198765''])"
  by (simp add: send_whatsapp_message_def example_config_def clean_mobile_example
        numeral_3_eq_3 Let_def)

text \<open>
  C9, as stated, fails: the status 201 lies in the 2xx range, and the dispatcher
  reports it as a failure, after one request.
\<close>

theorem status_201_is_not_delivered:
  "send_whatsapp_message example_config (\<lambda>n. Status 201) ''+91 98765'' =
     (Some (False, ''Failed to send WhatsApp message: HTTP 201''), [GatewayPost ''9198765''])"
  by (simp add: send_whatsapp_message_def example_config_def clean_mobile_example
        numeral_3_eq_3 str_nat_examples Let_def)

text \<open>
  C9, amended. In the retry loop, an attempt whose HTTP status is exactly 200 returns
  at once with delivered = true, and an attempt whose status is neither 200 nor 429
  (another 2xx status included) returns at once with delivered = false and the detail
  \<^verbatim>\<open>Failed to send WhatsApp message: HTTP <status>\<close>; one request is made in that
  attempt and none after it. So, with the dispatcher enabled and at least one attempt
  allowed, a first answer other than 429 ends the dispatch after exactly one request.
\<close>

theorem attempt_status_decides_at_once:
  "(gw attempt = Status c \<and> c \<noteq> 429 \<longrightarrow>
      attempt_loop max_retries gw mobile (Suc k) attempt retry_delay =
        (Inr (Some (c = 200,
                    if c = 200
                    then ''WhatsApp message sent successfully (attempt '' @ str_nat (attempt + 1) @ '')''
                    else ''Failed to send WhatsApp message: HTTP '' @ str_nat c)),
         [GatewayPost mobile]))
   \<and> (WHATSAPP_ENABLED cfg \<and> 0 < WHATSAPP_MAX_RETRIES cfg \<and> gw 0 = Status c \<and> c \<noteq> 429 \<longrightarrow>
      send_whatsapp_message cfg gw farmer_mobile =
        (Some (c = 200,
               if c = 200
               then ''WhatsApp message sent successfully (attempt '' @ str_nat 1 @ '')''
               else ''Failed to send WhatsApp message: HTTP '' @ str_nat c),
         [GatewayPost (clean_mobile farmer_mobile)]))"
proof (intro conjI impI)
  assume "gw attempt = Status c \<and> c \<noteq> 429"
  then show "attempt_loop max_retries gw mobile (Suc k) attempt retry_delay =
        (Inr (Some (c = 200,
                    if c = 200
                    then ''WhatsApp message sent successfully (attempt '' @ str_nat (attempt + 1) @ '')''
                    else ''Failed to send WhatsApp message: HTTP '' @ str_nat c)),
         [GatewayPost mobile])"
    by simp
next
  assume a: "WHATSAPP_ENABLED cfg \<and> 0 < WHATSAPP_MAX_RETRIES cfg \<and> gw 0 = Status c \<and> c \<noteq> 429"
  then obtain k where k: "nat (WHATSAPP_MAX_RETRIES cfg) = Suc k"
    by (cases "nat (WHATSAPP_MAX_RETRIES cfg)") auto
  from a show "send_whatsapp_message cfg gw farmer_mobile =
        (Some (c = 200,
               if c = 200
               then ''WhatsApp message sent successfully (attempt '' @ str_nat 1 @ '')''
               else ''Failed to send WhatsApp message: HTTP '' @ str_nat c),
         [GatewayPost (clean_mobile farmer_mobile)])"
    by (simp add: send_whatsapp_message_def k)
qed

text \<open>On the example configuration: a first answer 400, and a first answer 200.\<close>

theorem attempt_status_decides_at_once_witness:
  "send_whatsapp_message example_config (\<lambda>n. Status 400) ''+91 98765'' =
     (Some (False, ''Failed to send WhatsApp message: HTTP 400''), [GatewayPost ''9198765''])
   \<and> send_whatsapp_message example_config (\<lambda>n. Status 200) ''+91 98765'' =
     (Some (True, ''WhatsApp message sent successfully (attempt 1)''), [GatewayPost ''9198765''])"
  using attempt_status_decides_at_once [of "\<lambda>n. Status 400" 0 400 _ _ _ _ example_config "''+91 98765''"]
    attempt_status_decides_at_once [of "\<lambda>n. Status 200" 0 200 _ _ _ _ example_config "''+91 98765''"]
  by (simp add: example_config_def clean_mobile_example str_nat_examples)

section \<open>Properties of the tables\<close>

lemma set_map_filter_eq:
  "set (List.map_filter f xs) = {y. \<exists>x \<in> set xs. f x = Some y}"
  by (induction xs) (auto simp: List.map_filter_def)

lemma items_query_member:
  assumes "(i, it) \<in> set (get_recommendation_items_by_recommendation_id rid db)"
  shows "recommendation_items db i = Some it \<and> recommendation_id it = rid"
  using assms
  by (auto simp: get_recommendation_items_by_recommendation_id_def set_map_filter_eq
      split: option.splits if_splits)

lemma keyed_rows_keys:
  "map fst (List.map_filter
              (\<lambda>i. case m i of None \<Rightarrow> None
                    | Some it \<Rightarrow> if P it then Some (i, it) else None) xs) =
     filter (\<lambda>i. case m i of None \<Rightarrow> False | Some it \<Rightarrow> P it) xs"
  by (induction xs) (auto simp: map_filter_simps split: option.splits)

lemma items_query_keys:
  "map fst (get_recommendation_items_by_recommendation_id rid db) =
     filter (\<lambda>i. case recommendation_items db i of
                    None \<Rightarrow> False | Some it \<Rightarrow> recommendation_id it = rid)
       [0..<next_item_id db]"
  unfolding get_recommendation_items_by_recommendation_id_def by (rule keyed_rows_keys)

lemma items_query_distinct:
  "distinct (map fst (get_recommendation_items_by_recommendation_id rid db))"
  by (simp add: items_query_keys)

lemma update_dates_tables:
  "medicine_recommendations (snd (update_recommendation_item_dates i s e db)) = medicine_recommendations db
   \<and> farmers (snd (update_recommendation_item_dates i s e db)) = farmers db"
  by (simp add: update_recommendation_item_dates_def split: option.splits)

lemma update_dates_other_row:
  "j \<noteq> i \<Longrightarrow> recommendation_items (snd (update_recommendation_item_dates i s e db)) j
              = recommendation_items db j"
  by (simp add: update_recommendation_item_dates_def split: option.splits)

lemma update_dates_row:
  "recommendation_items db i = Some it \<Longrightarrow>
     recommendation_items (snd (update_recommendation_item_dates i s e db)) i
       = Some (it\<lparr>start_date := Some s, end_date := Some e\<rparr>)"
  by (simp add: update_recommendation_item_dates_def)

lemma update_dates_keeps_rows:
  "recommendation_items db j \<noteq> None \<Longrightarrow>
     recommendation_items (snd (update_recommendation_item_dates i s e db)) j \<noteq> None"
  by (simp add: update_recommendation_item_dates_def split: option.splits)

lemma apply_op_keeps_item_rows:
  "recommendation_items db j \<noteq> None \<Longrightarrow> recommendation_items (apply_op x db) j \<noteq> None"
  by (cases x)
     (simp_all add: claim_recommendation_other_tables update_dates_keeps_rows
        create_recommendation_def Let_def)

lemma apply_ops_keeps_item_rows:
  "recommendation_items db j \<noteq> None \<Longrightarrow> recommendation_items (apply_ops ops db) j \<noteq> None"
  unfolding apply_ops_def
proof (induction ops arbitrary: db)
  case Nil
  then show ?case by simp
next
  case (Cons a ops)
  from Cons.prems have "recommendation_items (apply_op a db) j \<noteq> None"
    by (rule apply_op_keeps_item_rows)
  then show ?case using Cons.IH by simp
qed

lemma apply_op_farmers: "farmers (apply_op x db) = farmers db"
  by (cases x)
     (simp_all add: claim_recommendation_other_tables update_dates_tables
        create_recommendation_def Let_def)

lemma apply_ops_farmers: "farmers (apply_ops ops db) = farmers db"
  unfolding apply_ops_def
  by (induction ops arbitrary: db) (simp_all add: apply_op_farmers)

section \<open>Properties of the treatment dates\<close>

lemma add_days_value: "add_days d n = Inr e \<Longrightarrow> e = d + n"
  by (simp add: add_days_def split: if_splits)

lemma fold_max_is_Max: "fold max ds (d::int) = Max (set (d # ds))"
  by (rule Max.set_eq_fold [symmetric])

lemma max_treatment_days_of_value:
  assumes "max_treatment_days_of items = Inr m"
  shows "usable_treatment_days items \<noteq> [] \<and> m = Max (set (usable_treatment_days items))"
  using assms
  by (auto simp: max_treatment_days_of_def fold_max_is_Max simp del: Max_insert set_simps(2) split: list.splits)

lemma usable_treatment_days_member:
  "d \<in> set (usable_treatment_days items) \<longleftrightarrow>
     d \<noteq> 0 \<and> (\<exists>i it. (i, it) \<in> set items \<and> treatment_days it = Some d)"
proof
  assume "d \<in> set (usable_treatment_days items)"
  then obtain i it where "(i, it) \<in> set items"
    and "(case treatment_days it of None \<Rightarrow> None
          | Some d \<Rightarrow> if d \<noteq> 0 then Some d else None) = Some d"
    by (auto simp: usable_treatment_days_def set_map_filter_eq)
  then show "d \<noteq> 0 \<and> (\<exists>i it. (i, it) \<in> set items \<and> treatment_days it = Some d)"
    by (cases "treatment_days it") (auto split: if_splits)
next
  assume "d \<noteq> 0 \<and> (\<exists>i it. (i, it) \<in> set items \<and> treatment_days it = Some d)"
  then obtain i it where m: "(i, it) \<in> set items" and "treatment_days it = Some d" "d \<noteq> 0"
    by blast
  then have "(case (i, it) of (i, it) \<Rightarrow> case treatment_days it of None \<Rightarrow> None
          | Some d \<Rightarrow> if d \<noteq> 0 then Some d else None) = Some d"
    by simp
  with m show "d \<in> set (usable_treatment_days items)"
    unfolding usable_treatment_days_def set_map_filter_eq by blast
qed

lemma max_treatment_days_of_nothing_usable:
  assumes "\<forall>(i, it) \<in> set items. treatment_days it = None \<or> treatment_days it = Some 0"
  shows "max_treatment_days_of items = Inl ValueError"
proof -
  from assms have "\<And>d. d \<notin> set (usable_treatment_days items)"
    by (fastforce simp: usable_treatment_days_member)
  then have "usable_treatment_days items = []"
    by (cases "usable_treatment_days items") auto
  then show ?thesis by (simp add: max_treatment_days_of_def)
qed

lemma update_items_tables:
  "update_items start items db = (x, db', tr) \<Longrightarrow>
     medicine_recommendations db' = medicine_recommendations db \<and> farmers db' = farmers db"
proof (induction items arbitrary: db x db' tr)
  case Nil
  then show ?case by simp
next
  case (Cons a items)
  obtain i it where a: "a = (i, it)" by (cases a)
  from Cons.prems Cons.IH show ?case
    by (auto simp: a update_dates_tables split: option.splits sum.splits prod.splits)
qed

lemma update_items_other_rows:
  "update_items start items db = (x, db', tr) \<Longrightarrow> j \<notin> fst ` set items \<Longrightarrow>
     recommendation_items db' j = recommendation_items db j"
proof (induction items arbitrary: db x db' tr)
  case Nil
  then show ?case by simp
next
  case (Cons a items)
  obtain i it where a: "a = (i, it)" by (cases a)
  from Cons.prems Cons.IH show ?case
    by (auto simp: a update_dates_other_row split: option.splits sum.splits prod.splits)
qed

lemma update_items_no_gateway:
  "update_items start items db = (x, db', tr) \<Longrightarrow> GatewayPost p \<notin> set tr"
proof (induction items arbitrary: db x db' tr)
  case Nil
  then show ?case by simp
next
  case (Cons a items)
  obtain i it where a: "a = (i, it)" by (cases a)
  from Cons.prems Cons.IH show ?case
    by (auto simp: a split: option.splits sum.splits prod.splits)
qed

lemma update_items_complete:
  assumes "update_items start items db = (None, db', tr)"
    and "distinct (map fst items)"
    and "\<forall>(i, it) \<in> set items. recommendation_items db i \<noteq> None"
  shows "\<forall>(i, it) \<in> set items. \<exists>d row.
           treatment_days it = Some d \<and> recommendation_items db' i = Some row \<and>
           start_date row = Some start \<and> end_date row = Some (start + (d - 1))"
  using assms
proof (induction items arbitrary: db db' tr)
  case Nil
  then show ?case by simp
next
  case (Cons a items)
  obtain i it where a: "a = (i, it)" by (cases a)
  from Cons.prems(1) obtain d e tr' where
    d: "treatment_days it = Some d" and e: "add_days start (d - 1) = Inr e"
    and rest: "update_items start items
                 (snd (update_recommendation_item_dates i start e db)) = (None, db', tr')"
    by (auto simp: a split: option.splits sum.splits prod.splits)
  let ?db1 = "snd (update_recommendation_item_dates i start e db)"
  from Cons.prems(3) obtain row where row: "recommendation_items db i = Some row"
    by (auto simp: a)
  have notin: "i \<notin> fst ` set items" using Cons.prems(2) by (simp add: a)
  have "recommendation_items db' i = recommendation_items ?db1 i"
    by (rule update_items_other_rows [OF rest notin])
  also have "\<dots> = Some (row\<lparr>start_date := Some start, end_date := Some e\<rparr>)"
    by (rule update_dates_row [OF row])
  finally have head: "\<exists>d row. treatment_days it = Some d \<and> recommendation_items db' i = Some row \<and>
           start_date row = Some start \<and> end_date row = Some (start + (d - 1))"
    using d add_days_value [OF e] by simp
  have "\<forall>(j, jt) \<in> set items. recommendation_items ?db1 j \<noteq> None"
    using Cons.prems(3) update_dates_keeps_rows by (fastforce simp: a)
  with Cons.IH [OF rest] Cons.prems(2)
  have "\<forall>(i, it) \<in> set items. \<exists>d row.
           treatment_days it = Some d \<and> recommendation_items db' i = Some row \<and>
           start_date row = Some start \<and> end_date row = Some (start + (d - 1))"
    by simp
  with head show ?case by (simp add: a)
qed

section \<open>Properties of the claim endpoint\<close>

lemma route_after_acceptance:
  assumes "request_accepted w rid req db shop_id r start"
  shows "claim_recommendation_route cfg w rid req db =
     (let items = get_recommendation_items_by_recommendation_id rid db in
      if items = [] then
        (\<lparr>status = 404, body = Error ''No recommendation items found''\<rparr>, db, [])
      else
        (case max_treatment_days_of items of
           Inl e \<Rightarrow> (\<lparr>status = 500, body = Failed e\<rparr>, db, [])
         | Inr m \<Rightarrow>
           (case add_days start (m - 1) of
              Inl e \<Rightarrow> (\<lparr>status = 500, body = Failed e\<rparr>, db, [])
            | Inr end \<Rightarrow>
              (let (claim_success, db1) =
                     claim_recommendation rid shop_id (Some (request_notes req)) (clock w)
                       (apply_ops (concurrent_writes w) db)
               in
               if \<not> claim_success then
                 (\<lparr>status = 500, body = Error ''Failed to claim recommendation''\<rparr>,
                  db1, [StoreClaim rid shop_id False])
               else
               (case update_items start items db1 of
                  (Some e, db2, tr) \<Rightarrow>
                    (\<lparr>status = 500, body = Failed e\<rparr>, db2, StoreClaim rid shop_id True # tr)
                | (None, db2, tr) \<Rightarrow>
                  (let (sent, message, tr') = notify cfg (gateway w) r db2
                   in case get_recommendation_by_id rid db2 of
                        None \<Rightarrow>
                          (\<lparr>status = 500, body = Failed TypeError\<rparr>, db2,
                           StoreClaim rid shop_id True # tr @ tr')
                      | Some updated \<Rightarrow>
                          (\<lparr>status = 200,
                            body = Claimed
                              \<lparr>res_recommendation_id = rid,
                               res_shop_id = shop_id,
                               res_claimed_at =
                                 (case claimed_at updated of Some t \<Rightarrow> t | None \<Rightarrow> clock w),
                               res_start_date = start,
                               res_end_date = end,
                               res_max_treatment_days = m,
                               res_notes = request_notes req,
                               whatsapp_sent = sent,
                               whatsapp_message = message\<rparr>\<rparr>,
                           db2, StoreClaim rid shop_id True # tr @ tr')))))))"
proof -
  from assms obtain str where
    "session_shop_id req = Some shop_id" "shop_id \<noteq> 0"
    "get_recommendation_by_id rid db = Some r" "is_claimed r = 0"
    "json_start_date req = Some str" "str \<noteq> []" "strptime w str = Some start"
    by (auto simp: request_accepted_def split: option.splits)
  then show ?thesis
    by (simp add: claim_recommendation_route_def Let_def)
qed

lemma route_accepted_or_rejected:
  "(\<exists>shop_id r start. request_accepted w rid req db shop_id r start) \<or>
   (\<exists>resp. claim_recommendation_route cfg w rid req db = (resp, db, []) \<and>
           status resp \<in> {400, 401, 404})"
  by (auto simp: claim_recommendation_route_def request_accepted_def Let_def
      split: option.splits)

lemma route_when_ready:
  assumes "ready_to_claim w rid req db shop_id r start m e"
  shows "claim_recommendation_route cfg w rid req db =
     (let items = get_recommendation_items_by_recommendation_id rid db;
          (claim_success, db1) =
             claim_recommendation rid shop_id (Some (request_notes req)) (clock w)
               (apply_ops (concurrent_writes w) db)
      in
      if \<not> claim_success then
        (\<lparr>status = 500, body = Error ''Failed to claim recommendation''\<rparr>,
         db1, [StoreClaim rid shop_id False])
      else
        (case update_items start items db1 of
           (Some x, db2, tr) \<Rightarrow>
             (\<lparr>status = 500, body = Failed x\<rparr>, db2, StoreClaim rid shop_id True # tr)
         | (None, db2, tr) \<Rightarrow>
           (let (sent, message, tr') = notify cfg (gateway w) r db2
            in case get_recommendation_by_id rid db2 of
                 None \<Rightarrow>
                   (\<lparr>status = 500, body = Failed TypeError\<rparr>, db2,
                    StoreClaim rid shop_id True # tr @ tr')
               | Some updated \<Rightarrow>
                   (\<lparr>status = 200,
                     body = Claimed
                       \<lparr>res_recommendation_id = rid,
                        res_shop_id = shop_id,
                        res_claimed_at =
                          (case claimed_at updated of Some t \<Rightarrow> t | None \<Rightarrow> clock w),
                        res_start_date = start,
                        res_end_date = e,
                        res_max_treatment_days = m,
                        res_notes = request_notes req,
                        whatsapp_sent = sent,
                        whatsapp_message = message\<rparr>\<rparr>,
                    db2, StoreClaim rid shop_id True # tr @ tr'))))"
proof -
  from assms have acc: "request_accepted w rid req db shop_id r start"
    and rest: "get_recommendation_items_by_recommendation_id rid db \<noteq> []"
      "max_treatment_days_of (get_recommendation_items_by_recommendation_id rid db) = Inr m"
      "add_days start (m - 1) = Inr e"
    by (simp_all add: ready_to_claim_def)
  show ?thesis
    unfolding route_after_acceptance [OF acc] using rest by (simp add: Let_def)
qed

lemma update_items_computable:
  assumes "\<forall>(i, it) \<in> set items. \<exists>d e. treatment_days it = Some d \<and> add_days start (d - 1) = Inr e"
  shows "fst (update_items start items db) = None"
  using assms
proof (induction items arbitrary: db)
  case Nil
  then show ?case by simp
next
  case (Cons a items)
  obtain i it where a: "a = (i, it)" by (cases a)
  from Cons.prems obtain d e where "treatment_days it = Some d" "add_days start (d - 1) = Inr e"
    by (auto simp: a)
  moreover from Cons.prems have
    "fst (update_items start items (snd (update_recommendation_item_dates i start e db))) = None"
    by (intro Cons.IH) simp
  ultimately show ?case by (simp add: a split_beta)
qed

lemma notify_without_mobile:
  assumes "case get_farmer_by_id (farmer_id r) db of
             None \<Rightarrow> True | Some f \<Rightarrow> mobile_no f = None \<or> mobile_no f = Some []"
  shows "notify cfg gw r db = (False, ''Farmer mobile number not available'', [])"
  using assms by (auto simp: notify_def split: option.splits)

lemma all_treatment_days_member:
  "d \<in> set (all_treatment_days items) \<longleftrightarrow>
     (\<exists>i it. (i, it) \<in> set items \<and> treatment_days it = Some d)"
  unfolding all_treatment_days_def set_map_filter_eq by force

lemma usable_is_nonzero_part:
  "set (usable_treatment_days items) = {d \<in> set (all_treatment_days items). d \<noteq> 0}"
proof (rule set_eqI)
  fix d
  show "d \<in> set (usable_treatment_days items) \<longleftrightarrow>
          d \<in> {d \<in> set (all_treatment_days items). d \<noteq> 0}"
    unfolding usable_treatment_days_member mem_Collect_eq all_treatment_days_member by blast
qed

lemma max_usable_is_max_all:
  assumes ne: "usable_treatment_days items \<noteq> []"
    and nonneg: "\<forall>d \<in> set (all_treatment_days items). 0 \<le> d"
  shows "Max (set (usable_treatment_days items)) = Max (set (all_treatment_days items))"
proof -
  let ?U = "set (usable_treatment_days items)" and ?A = "set (all_treatment_days items)"
  have sub: "?U \<subseteq> ?A" by (auto simp: usable_is_nonzero_part)
  from ne obtain u where u: "u \<in> ?U" by (cases "usable_treatment_days items") auto
  with sub have Ane: "?A \<noteq> {}" by auto
  have le: "Max ?U \<le> Max ?A"
    by (rule Max_mono [OF sub]) (use u in auto)
  from u have "u \<noteq> 0" "u \<in> ?A" by (auto simp: usable_is_nonzero_part)
  with nonneg have "0 < u" by force
  moreover have "u \<le> Max ?A" using \<open>u \<in> ?A\<close> by simp
  ultimately have "Max ?A \<noteq> 0" by simp
  moreover have "Max ?A \<in> ?A" using Ane by simp
  ultimately have "Max ?A \<in> ?U" by (simp add: usable_is_nonzero_part)
  then have "Max ?A \<le> Max ?U" by simp
  with le show ?thesis by simp
qed

lemma route_200_inversion:
  assumes "claim_recommendation_route cfg w rid req db = (resp, db', tr)"
    and "status resp = 200"
  shows "\<exists>shop_id r start m e db1 tr1 cr.
           ready_to_claim w rid req db shop_id r start m e \<and>
           claim_recommendation rid shop_id (Some (request_notes req)) (clock w)
             (apply_ops (concurrent_writes w) db) = (True, db1) \<and>
           update_items start (get_recommendation_items_by_recommendation_id rid db) db1
             = (None, db', tr1) \<and>
           resp = \<lparr>status = 200, body = Claimed cr\<rparr> \<and>
           res_start_date cr = start \<and> res_end_date cr = e \<and>
           res_max_treatment_days cr = m \<and> res_shop_id cr = shop_id"
proof -
  from route_accepted_or_rejected [of w rid req db cfg] assms
  obtain shop_id r start where acc: "request_accepted w rid req db shop_id r start"
    by auto
  let ?items = "get_recommendation_items_by_recommendation_id rid db"
  note R = assms(1) [unfolded route_after_acceptance [OF acc]]
  from R assms(2) have ne: "?items \<noteq> []"
    by (auto simp: Let_def split: if_splits)
  from R assms(2) ne obtain m where m: "max_treatment_days_of ?items = Inr m"
    by (cases "max_treatment_days_of ?items") (auto simp: Let_def)
  from R assms(2) ne m obtain e where e: "add_days start (m - 1) = Inr e"
    by (cases "add_days start (m - 1)") (auto simp: Let_def)
  obtain ok db1 where c:
    "claim_recommendation rid shop_id (Some (request_notes req)) (clock w)
       (apply_ops (concurrent_writes w) db) = (ok, db1)"
    by (cases "claim_recommendation rid shop_id (Some (request_notes req)) (clock w)
                 (apply_ops (concurrent_writes w) db)")
  from R assms(2) ne m e c have ok: "ok"
    by (auto simp: Let_def split: if_splits)
  obtain x db2 tr1 where u: "update_items start ?items db1 = (x, db2, tr1)"
    by (cases "update_items start ?items db1")
  from R assms(2) ne m e c ok u have x: "x = None"
    by (cases x) (auto simp: Let_def)
  obtain sent msg tr2 where n: "notify cfg (gateway w) r db2 = (sent, msg, tr2)"
    by (cases "notify cfg (gateway w) r db2")
  from R assms(2) ne m e c ok u x n obtain upd where
    g: "get_recommendation_by_id rid db2 = Some upd"
    by (cases "get_recommendation_by_id rid db2") (auto simp: Let_def)
  from R ne m e c ok u x n g have "db' = db2"
    and "resp = \<lparr>status = 200, body = Claimed
            \<lparr>res_recommendation_id = rid, res_shop_id = shop_id,
             res_claimed_at = (case claimed_at upd of Some t \<Rightarrow> t | None \<Rightarrow> clock w),
             res_start_date = start, res_end_date = e, res_max_treatment_days = m,
             res_notes = request_notes req, whatsapp_sent = sent,
             whatsapp_message = msg\<rparr>\<rparr>"
    by (simp_all add: Let_def)
  moreover have "ready_to_claim w rid req db shop_id r start m e"
    using acc ne m e by (simp add: ready_to_claim_def)
  ultimately have
    "ready_to_claim w rid req db shop_id r start m e \<and>
     claim_recommendation rid shop_id (Some (request_notes req)) (clock w)
       (apply_ops (concurrent_writes w) db) = (True, db1) \<and>
     update_items start (get_recommendation_items_by_recommendation_id rid db) db1
       = (None, db', tr1) \<and>
     resp = \<lparr>status = 200, body = Claimed
            \<lparr>res_recommendation_id = rid, res_shop_id = shop_id,
             res_claimed_at = (case claimed_at upd of Some t \<Rightarrow> t | None \<Rightarrow> clock w),
             res_start_date = start, res_end_date = e, res_max_treatment_days = m,
             res_notes = request_notes req, whatsapp_sent = sent,
             whatsapp_message = msg\<rparr>\<rparr> \<and>
     res_start_date \<lparr>res_recommendation_id = rid, res_shop_id = shop_id,
             res_claimed_at = (case claimed_at upd of Some t \<Rightarrow> t | None \<Rightarrow> clock w),
             res_start_date = start, res_end_date = e, res_max_treatment_days = m,
             res_notes = request_notes req, whatsapp_sent = sent,
             whatsapp_message = msg\<rparr> = start \<and>
     res_end_date \<lparr>res_recommendation_id = rid, res_shop_id = shop_id,
             res_claimed_at = (case claimed_at upd of Some t \<Rightarrow> t | None \<Rightarrow> clock w),
             res_start_date = start, res_end_date = e, res_max_treatment_days = m,
             res_notes = request_notes req, whatsapp_sent = sent,
             whatsapp_message = msg\<rparr> = e \<and>
     res_max_treatment_days \<lparr>res_recommendation_id = rid, res_shop_id = shop_id,
             res_claimed_at = (case claimed_at upd of Some t \<Rightarrow> t | None \<Rightarrow> clock w),
             res_start_date = start, res_end_date = e, res_max_treatment_days = m,
             res_notes = request_notes req, whatsapp_sent = sent,
             whatsapp_message = msg\<rparr> = m \<and>
     res_shop_id \<lparr>res_recommendation_id = rid, res_shop_id = shop_id,
             res_claimed_at = (case claimed_at upd of Some t \<Rightarrow> t | None \<Rightarrow> clock w),
             res_start_date = start, res_end_date = e, res_max_treatment_days = m,
             res_notes = request_notes req, whatsapp_sent = sent,
             whatsapp_message = msg\<rparr> = shop_id"
    using c ok u x by simp
  then show ?thesis by blast
qed

lemma items_rows_after_claim:
  assumes "(i, it) \<in> set (get_recommendation_items_by_recommendation_id rid db)"
  shows "recommendation_items
           (snd (claim_recommendation rid' shop_id nts now (apply_ops ops db))) i \<noteq> None"
proof -
  from items_query_member [OF assms] have "recommendation_items db i \<noteq> None" by simp
  then have "recommendation_items (apply_ops ops db) i \<noteq> None"
    by (rule apply_ops_keeps_item_rows)
  then show ?thesis by (simp add: claim_recommendation_other_tables)
qed

lemma route_after_commit:
  assumes ready: "ready_to_claim w rid req db shop_id r start m e"
    and claimed: "fst (claim_recommendation rid shop_id (Some (request_notes req)) (clock w)
                        (apply_ops (concurrent_writes w) db))"
    and computable:
      "\<forall>(i, it) \<in> set (get_recommendation_items_by_recommendation_id rid db).
         \<exists>d e'. treatment_days it = Some d \<and> add_days start (d - 1) = Inr e'"
  shows "\<exists>db2 tr1 u.
           get_recommendation_by_id rid db2 = Some u \<and> is_claimed u = 1 \<and>
           claimed_by_shop_id u = Some shop_id \<and> claimed_at u = Some (clock w) \<and>
           farmers db2 = farmers db \<and>
           (\<forall>p. GatewayPost p \<notin> set tr1) \<and>
           (\<forall>(i, it) \<in> set (get_recommendation_items_by_recommendation_id rid db).
              \<exists>d row. treatment_days it = Some d \<and> recommendation_items db2 i = Some row \<and>
                      start_date row = Some start \<and> end_date row = Some (start + (d - 1))) \<and>
           claim_recommendation_route cfg w rid req db =
             (\<lparr>status = 200,
               body = Claimed
                 \<lparr>res_recommendation_id = rid, res_shop_id = shop_id,
                  res_claimed_at = clock w, res_start_date = start, res_end_date = e,
                  res_max_treatment_days = m, res_notes = request_notes req,
                  whatsapp_sent = fst (notify cfg (gateway w) r db2),
                  whatsapp_message = fst (snd (notify cfg (gateway w) r db2))\<rparr>\<rparr>,
              db2, StoreClaim rid shop_id True # tr1 @ snd (snd (notify cfg (gateway w) r db2)))"
proof -
  let ?items = "get_recommendation_items_by_recommendation_id rid db"
  let ?db0 = "apply_ops (concurrent_writes w) db"
  let ?c = "claim_recommendation rid shop_id (Some (request_notes req)) (clock w) ?db0"
  from claimed obtain r0 where r0: "medicine_recommendations ?db0 rid = Some r0" "is_claimed r0 = 0"
    by (auto simp: claim_recommendation_result)
  note c = claim_recommendation_true [OF r0, of shop_id "Some (request_notes req)" "clock w"]
  obtain db1 where db1: "?c = (True, db1)" and
    row1: "medicine_recommendations db1 rid =
             Some (r0\<lparr>is_claimed := 1, claimed_by_shop_id := Some shop_id,
                      claimed_at := Some (clock w), claim_notes := Some (request_notes req),
                      updated_at := Some (clock w)\<rparr>)"
    and far1: "farmers db1 = farmers ?db0"
    using c by simp
  obtain x db2 tr1 where u: "update_items start ?items db1 = (x, db2, tr1)"
    by (cases "update_items start ?items db1")
  from update_items_computable [OF computable, of db1] u have x: "x = None" by simp
  from update_items_tables [OF u] have tabs:
    "medicine_recommendations db2 = medicine_recommendations db1" "farmers db2 = farmers db1"
    by simp_all
  have g: "get_recommendation_by_id rid db2 =
             Some (r0\<lparr>is_claimed := 1, claimed_by_shop_id := Some shop_id,
                      claimed_at := Some (clock w), claim_notes := Some (request_notes req),
                      updated_at := Some (clock w)\<rparr>)"
    by (simp add: get_recommendation_by_id_def tabs row1)
  have far: "farmers db2 = farmers db"
    by (simp add: tabs far1 apply_ops_farmers)
  have nogw: "\<forall>p. GatewayPost p \<notin> set tr1"
    using update_items_no_gateway [OF u] by blast
  have rows: "\<forall>(i, it) \<in> set ?items. recommendation_items db1 i \<noteq> None"
  proof -
    have "recommendation_items db1 i \<noteq> None" if "(i, it) \<in> set ?items" for i it
      using items_rows_after_claim [OF that, where rid' = rid and shop_id = shop_id
          and nts = "Some (request_notes req)" and now = "clock w"
          and ops = "concurrent_writes w"] db1
      by simp
    then show ?thesis by blast
  qed
  have dates: "\<forall>(i, it) \<in> set ?items.
              \<exists>d row. treatment_days it = Some d \<and> recommendation_items db2 i = Some row \<and>
                      start_date row = Some start \<and> end_date row = Some (start + (d - 1))"
    by (rule update_items_complete [OF u [unfolded x] items_query_distinct rows])
  have route: "claim_recommendation_route cfg w rid req db =
             (\<lparr>status = 200,
               body = Claimed
                 \<lparr>res_recommendation_id = rid, res_shop_id = shop_id,
                  res_claimed_at = clock w, res_start_date = start, res_end_date = e,
                  res_max_treatment_days = m, res_notes = request_notes req,
                  whatsapp_sent = fst (notify cfg (gateway w) r db2),
                  whatsapp_message = fst (snd (notify cfg (gateway w) r db2))\<rparr>\<rparr>,
              db2, StoreClaim rid shop_id True # tr1 @ snd (snd (notify cfg (gateway w) r db2)))"
    unfolding route_when_ready [OF ready]
    by (simp add: db1 u x g Let_def split_beta)
  have "get_recommendation_by_id rid db2 =
          Some (r0\<lparr>is_claimed := 1, claimed_by_shop_id := Some shop_id,
                   claimed_at := Some (clock w), claim_notes := Some (request_notes req),
                   updated_at := Some (clock w)\<rparr>) \<and>
        is_claimed (r0\<lparr>is_claimed := 1, claimed_by_shop_id := Some shop_id,
                   claimed_at := Some (clock w), claim_notes := Some (request_notes req),
                   updated_at := Some (clock w)\<rparr>) = 1 \<and>
        claimed_by_shop_id (r0\<lparr>is_claimed := 1, claimed_by_shop_id := Some shop_id,
                   claimed_at := Some (clock w), claim_notes := Some (request_notes req),
                   updated_at := Some (clock w)\<rparr>) = Some shop_id \<and>
        claimed_at (r0\<lparr>is_claimed := 1, claimed_by_shop_id := Some shop_id,
                   claimed_at := Some (clock w), claim_notes := Some (request_notes req),
                   updated_at := Some (clock w)\<rparr>) = Some (clock w) \<and>
        farmers db2 = farmers db \<and> (\<forall>p. GatewayPost p \<notin> set tr1) \<and>
        (\<forall>(i, it) \<in> set ?items.
              \<exists>d row. treatment_days it = Some d \<and> recommendation_items db2 i = Some row \<and>
                      start_date row = Some start \<and> end_date row = Some (start + (d - 1))) \<and>
        claim_recommendation_route cfg w rid req db =
             (\<lparr>status = 200,
               body = Claimed
                 \<lparr>res_recommendation_id = rid, res_shop_id = shop_id,
                  res_claimed_at = clock w, res_start_date = start, res_end_date = e,
                  res_max_treatment_days = m, res_notes = request_notes req,
                  whatsapp_sent = fst (notify cfg (gateway w) r db2),
                  whatsapp_message = fst (snd (notify cfg (gateway w) r db2))\<rparr>\<rparr>,
              db2, StoreClaim rid shop_id True # tr1 @ snd (snd (notify cfg (gateway w) r db2)))"
    using g far nogw dates route by simp
  then show ?thesis by blast
qed

lemma ready_to_claim_any_gateway:
  "ready_to_claim (w\<lparr>gateway := g\<rparr>) rid req db shop_id r start m e =
   ready_to_claim w rid req db shop_id r start m e"
  by (simp add: ready_to_claim_def request_accepted_def split: option.splits)

lemma notification_never_fails_the_claim:
  assumes "ready_to_claim w rid req db shop_id r start m e"
    and "fst (claim_recommendation rid shop_id (Some (request_notes req)) (clock w)
                (apply_ops (concurrent_writes w) db))"
    and "\<forall>(i, it) \<in> set (get_recommendation_items_by_recommendation_id rid db).
           \<exists>d e'. treatment_days it = Some d \<and> add_days start (d - 1) = Inr e'"
  shows "status (fst (claim_recommendation_route cfg (w\<lparr>gateway := g\<rparr>) rid req db)) = 200"
proof -
  have ready: "ready_to_claim (w\<lparr>gateway := g\<rparr>) rid req db shop_id r start m e"
    using assms(1) by (simp add: ready_to_claim_any_gateway)
  from route_after_commit [OF ready, where cfg = cfg] assms(2,3)
  obtain resp db2 tr where
    "claim_recommendation_route cfg (w\<lparr>gateway := g\<rparr>) rid req db = (resp, db2, tr)"
    "status resp = 200"
    by fastforce
  then show ?thesis by simp
qed

subsection \<open>The example request\<close>

lemma example_accepted:
  "request_accepted (example_world g ops) 1 example_request (example_database ds fs) 7
     example_recommendation 738886"
  by (simp add: request_accepted_def example_world_def example_request_def
      example_database_def get_recommendation_by_id_def example_recommendation_def)

lemma example_items:
  "get_recommendation_items_by_recommendation_id 1 (example_database [] fs) = []"
  "get_recommendation_items_by_recommendation_id 1 (example_database [a] fs) =
     [(1, example_item a)]"
  "get_recommendation_items_by_recommendation_id 1 (example_database [a, b] fs) =
     [(1, example_item a), (2, example_item b)]"
  by (simp_all add: get_recommendation_items_by_recommendation_id_def example_database_def
      example_item_def map_filter_simps upt_rec)

lemma example_items_3:
  "get_recommendation_items_by_recommendation_id 1 (example_database [a, b, c] fs) =
     [(1, example_item a), (2, example_item b), (3, example_item c)]"
  by (simp add: get_recommendation_items_by_recommendation_id_def example_database_def
      example_item_def map_filter_simps upt_rec)

lemma example_unclaimed:
  "map_option is_claimed (get_recommendation_by_id 1 (example_database ds fs)) = Some 0"
  by (simp add: get_recommendation_by_id_def example_database_def example_recommendation_def)

lemma example_ready_5:
  "ready_to_claim (example_world g ops) 1 example_request
     (example_database [Some 5] fs) 7 example_recommendation 738886 5 738890"
  by (simp add: ready_to_claim_def example_accepted example_items max_treatment_days_of_def
      usable_treatment_days_def map_filter_simps example_item_def add_days_def
      del: One_nat_def)

lemma example_ready_5_0:
  "ready_to_claim (example_world g ops) 1 example_request
     (example_database [Some 5, Some 0] fs) 7 example_recommendation 738886 5 738890"
  by (simp add: ready_to_claim_def example_accepted example_items max_treatment_days_of_def
      usable_treatment_days_def map_filter_simps example_item_def add_days_def
      del: One_nat_def)

lemma example_ready_5_10_3:
  "ready_to_claim (example_world g ops) 1 example_request
     (example_database [Some 5, Some 10, Some 3] fs) 7 example_recommendation 738886 10 738895"
  by (simp add: ready_to_claim_def example_accepted example_items_3 max_treatment_days_of_def
      usable_treatment_days_def map_filter_simps example_item_def add_days_def
      del: One_nat_def)

subsection \<open>A claim lost to another shop\<close>

text \<open>
  C2, as stated, fails. Shop 7 asks for recommendation 1, which it reads unclaimed;
  before its conditional update shop 9 claims it. \<^verbatim>\<open>claim_recommendation\<close> returns
  false and the route answers 500 with the error \<^verbatim>\<open>Failed to claim recommendation\<close>,
  not 400; the recommendation stays with shop 9.
\<close>

theorem lost_race_answers_500:
  "map_option is_claimed (get_recommendation_by_id 1 (example_database [Some 5] example_farmers)) = Some 0
   \<and> status (fst (claim_recommendation_route example_config
          (example_world (\<lambda>n. Status 200) [ClaimOp 1 9 None 999]) 1
          example_request (example_database [Some 5] example_farmers))) = 500
   \<and> body (fst (claim_recommendation_route example_config
          (example_world (\<lambda>n. Status 200) [ClaimOp 1 9 None 999]) 1
          example_request (example_database [Some 5] example_farmers))) =
       Error ''Failed to claim recommendation''
   \<and> snd (snd (claim_recommendation_route example_config
          (example_world (\<lambda>n. Status 200) [ClaimOp 1 9 None 999]) 1
          example_request (example_database [Some 5] example_farmers))) = [StoreClaim 1 7 False]
   \<and> map_option claimed_by_shop_id (get_recommendation_by_id 1
        (fst (snd (claim_recommendation_route example_config
          (example_world (\<lambda>n. Status 200) [ClaimOp 1 9 None 999]) 1
          example_request (example_database [Some 5] example_farmers))))) = Some (Some 9)"
  by code_simp

text \<open>
  C2, amended. For every claim request that passes the checks of the route (the
  recommendation was read unclaimed) and in which \<^verbatim>\<open>claim_recommendation\<close> then
  returns false, because another claimant won in between, the route answers HTTP 500
  with the generic error \<^verbatim>\<open>Failed to claim recommendation\<close>. The request writes
  nothing: the store is as the other requests left it, no item dates are written and
  no message is sent.
\<close>

theorem lost_race_is_generic_failure:
  assumes "ready_to_claim w rid req db shop_id r start m e"
    and "\<not> fst (claim_recommendation rid shop_id (Some (request_notes req)) (clock w)
                  (apply_ops (concurrent_writes w) db))"
  shows "claim_recommendation_route cfg w rid req db =
           (\<lparr>status = 500, body = Error ''Failed to claim recommendation''\<rparr>,
            apply_ops (concurrent_writes w) db, [StoreClaim rid shop_id False])"
  using claim_recommendation_false [OF assms(2)] assms(2)
  unfolding route_when_ready [OF assms(1)]
  by (simp add: split_beta)

text \<open>On the example, with the claim of shop 9 in between.\<close>

theorem lost_race_is_generic_failure_witness:
  "fst (claim_recommendation_route example_config
          (example_world (\<lambda>n. Status 200) [ClaimOp 1 9 None 999]) 1
          example_request (example_database [Some 5] example_farmers)) =
     \<lparr>status = 500, body = Error ''Failed to claim recommendation''\<rparr>
   \<and> snd (snd (claim_recommendation_route example_config
          (example_world (\<lambda>n. Status 200) [ClaimOp 1 9 None 999]) 1
          example_request (example_database [Some 5] example_farmers))) =
     [StoreClaim 1 7 False]"
proof -
  have lost: "\<not> fst (claim_recommendation 1 7 (Some (request_notes example_request))
                (clock (example_world (\<lambda>n. Status 200) [ClaimOp 1 9 None 999]))
                (apply_ops (concurrent_writes (example_world (\<lambda>n. Status 200) [ClaimOp 1 9 None 999]))
                   (example_database [Some 5] example_farmers)))"
    by code_simp
  show ?thesis
    using lost_race_is_generic_failure [OF example_ready_5 lost, of example_config] by simp
qed

subsection \<open>The dates of a successful claim\<close>

text \<open>
  C3, as stated, fails. With two items of 0 and -5 treatment days the claim succeeds
  from 2024-01-01 (ordinal 738886). The largest treatment length across the items is
  0, which would give the end date 738885; the route skips the 0, takes -5 and
  returns 738880.
\<close>

theorem negative_days_end_date:
  "status (fst (claim_recommendation_route example_config (example_world (\<lambda>n. Status 200) []) 1
                  example_request (example_database [Some 0, Some (- 5)] example_farmers))) = 200
   \<and> map_option end_date (recommendation_items
        (fst (snd (claim_recommendation_route example_config (example_world (\<lambda>n. Status 200) []) 1
                  example_request (example_database [Some 0, Some (- 5)] example_farmers)))) 2)
       = Some (Some (738886 + (- 5 - 1)))
   \<and> (case body (fst (claim_recommendation_route example_config
                        (example_world (\<lambda>n. Status 200) []) 1
                        example_request (example_database [Some 0, Some (- 5)] example_farmers))) of
        Claimed cr \<Rightarrow> res_start_date cr = 738886 \<and> res_end_date cr = 738880
                       \<and> res_max_treatment_days cr = - 5
      | _ \<Rightarrow> False)
   \<and> Max (set (all_treatment_days (get_recommendation_items_by_recommendation_id 1
               (example_database [Some 0, Some (- 5)] example_farmers)))) = 0
   \<and> 738886 + (Max (set (all_treatment_days (get_recommendation_items_by_recommendation_id 1
               (example_database [Some 0, Some (- 5)] example_farmers)))) - 1) = 738885"
  by code_simp

text \<open>
  C3, amended. For every successful claim (status 200) with parsed start date s: each
  item of the recommendation has treatment days d and its persisted dates are s and
  s + (d - 1) (inclusive counting, so d = 1 gives the end date s); and the
  recommendation-level end date returned is s + (m - 1), where m is the largest
  treatment length among the items whose treatment days are not 0. That is the largest
  treatment length across all items whenever no item has negative treatment days.
\<close>

theorem successful_claim_dates:
  assumes "claim_recommendation_route cfg w rid req db = (resp, db', tr)"
    and "status resp = 200"
  shows "\<exists>str start cr.
           json_start_date req = Some str \<and> strptime w str = Some start \<and>
           body resp = Claimed cr \<and> res_start_date cr = start \<and>
           (\<forall>(i, it) \<in> set (get_recommendation_items_by_recommendation_id rid db).
              \<exists>d row. treatment_days it = Some d \<and> recommendation_items db' i = Some row \<and>
                      start_date row = Some start \<and> end_date row = Some (start + (d - 1))) \<and>
           usable_treatment_days (get_recommendation_items_by_recommendation_id rid db) \<noteq> [] \<and>
           res_max_treatment_days cr =
             Max (set (usable_treatment_days (get_recommendation_items_by_recommendation_id rid db))) \<and>
           res_end_date cr = start + (res_max_treatment_days cr - 1) \<and>
           ((\<forall>d \<in> set (all_treatment_days (get_recommendation_items_by_recommendation_id rid db)).
               0 \<le> d) \<longrightarrow>
            res_max_treatment_days cr =
              Max (set (all_treatment_days (get_recommendation_items_by_recommendation_id rid db))))"
proof -
  let ?items = "get_recommendation_items_by_recommendation_id rid db"
  from route_200_inversion [OF assms] obtain shop_id r start m e db1 tr1 cr where
    ready: "ready_to_claim w rid req db shop_id r start m e"
    and claim: "claim_recommendation rid shop_id (Some (request_notes req)) (clock w)
                  (apply_ops (concurrent_writes w) db) = (True, db1)"
    and upd: "update_items start ?items db1 = (None, db', tr1)"
    and resp: "resp = \<lparr>status = 200, body = Claimed cr\<rparr>"
    and cr: "res_start_date cr = start" "res_end_date cr = e" "res_max_treatment_days cr = m"
    by blast
  from ready obtain str where str: "json_start_date req = Some str" "strptime w str = Some start"
    by (auto simp: ready_to_claim_def request_accepted_def split: option.splits)
  from ready have m: "max_treatment_days_of ?items = Inr m" and e: "add_days start (m - 1) = Inr e"
    by (simp_all add: ready_to_claim_def)
  have rows: "\<forall>(i, it) \<in> set ?items. recommendation_items db1 i \<noteq> None"
  proof -
    have "recommendation_items db1 i \<noteq> None" if "(i, it) \<in> set ?items" for i it
      using items_rows_after_claim [OF that, where rid' = rid and shop_id = shop_id
          and nts = "Some (request_notes req)" and now = "clock w"
          and ops = "concurrent_writes w"] claim
      by simp
    then show ?thesis by blast
  qed
  have dates: "\<forall>(i, it) \<in> set ?items.
              \<exists>d row. treatment_days it = Some d \<and> recommendation_items db' i = Some row \<and>
                      start_date row = Some start \<and> end_date row = Some (start + (d - 1))"
    by (rule update_items_complete [OF upd items_query_distinct rows])
  note mv = max_treatment_days_of_value [OF m]
  have nonneg: "(\<forall>d \<in> set (all_treatment_days ?items). 0 \<le> d) \<longrightarrow>
                  m = Max (set (all_treatment_days ?items))"
    using mv max_usable_is_max_all [of ?items] by simp
  have "json_start_date req = Some str \<and> strptime w str = Some start \<and>
           body resp = Claimed cr \<and> res_start_date cr = start \<and>
           (\<forall>(i, it) \<in> set ?items.
              \<exists>d row. treatment_days it = Some d \<and> recommendation_items db' i = Some row \<and>
                      start_date row = Some start \<and> end_date row = Some (start + (d - 1))) \<and>
           usable_treatment_days ?items \<noteq> [] \<and>
           res_max_treatment_days cr = Max (set (usable_treatment_days ?items)) \<and>
           res_end_date cr = start + (res_max_treatment_days cr - 1) \<and>
           ((\<forall>d \<in> set (all_treatment_days ?items). 0 \<le> d) \<longrightarrow>
            res_max_treatment_days cr = Max (set (all_treatment_days ?items)))"
    using str resp cr dates mv add_days_value [OF e] nonneg by simp
  then show ?thesis by blast
qed

text \<open>
  On the example of the spec: items of 5, 10 and 3 days from 2024-01-01 (738886) give
  the end date 2024-01-10 (738895).
\<close>

theorem successful_claim_dates_witness:
  "\<exists>cr. body (fst (claim_recommendation_route example_config
                     (example_world (\<lambda>n. Status 200) []) 1 example_request
                     (example_database [Some 5, Some 10, Some 3] example_farmers))) = Claimed cr
        \<and> res_start_date cr = 738886 \<and> res_max_treatment_days cr = 10
        \<and> res_end_date cr = 738895"
proof -
  let ?R = "claim_recommendation_route example_config
              (example_world (\<lambda>n. Status 200) []) 1 example_request
              (example_database [Some 5, Some 10, Some 3] example_farmers)"
  have R: "?R = (fst ?R, fst (snd ?R), snd (snd ?R))" by simp
  have ok: "status (fst ?R) = 200" by code_simp
  from successful_claim_dates [OF R ok] obtain str start cr where
    "json_start_date example_request = Some str"
    "strptime (example_world (\<lambda>n. Status 200) []) str = Some start"
    "body (fst ?R) = Claimed cr" "res_start_date cr = start"
    "res_max_treatment_days cr =
       Max (set (usable_treatment_days (get_recommendation_items_by_recommendation_id 1
                   (example_database [Some 5, Some 10, Some 3] example_farmers))))"
    "res_end_date cr = start + (res_max_treatment_days cr - 1)"
    by blast
  moreover have "Max (set (usable_treatment_days (get_recommendation_items_by_recommendation_id 1
                   (example_database [Some 5, Some 10, Some 3] example_farmers)))) = 10"
    by code_simp
  ultimately have "body (fst ?R) = Claimed cr \<and> res_start_date cr = 738886 \<and>
      res_max_treatment_days cr = 10 \<and> res_end_date cr = 738895"
    by (auto simp: example_request_def example_world_def split: if_splits)
  then show ?thesis by blast
qed

subsection \<open>Items without usable treatment days\<close>

text \<open>
  C6, as stated, fails. An item with 0 treatment days beside one with 5 does not stop
  the request: the recommendation is claimed, both items get dates (the second one the
  end date s - 1) and the answer is 200.
\<close>

theorem zero_day_item_does_not_stop_the_claim:
  "status (fst (claim_recommendation_route example_config (example_world (\<lambda>n. Status 200) []) 1
                    example_request (example_database [Some 5, Some 0] example_farmers))) = 200
   \<and> snd (snd (claim_recommendation_route example_config (example_world (\<lambda>n. Status 200) []) 1
                    example_request (example_database [Some 5, Some 0] example_farmers))) =
       [StoreClaim 1 7 True, StoreItemDates 1 738886 738890, StoreItemDates 2 738886 738885,
        GatewayPost ''9198765'']
   \<and> map_option is_claimed (get_recommendation_by_id 1
        (fst (snd (claim_recommendation_route example_config (example_world (\<lambda>n. Status 200) []) 1
                    example_request (example_database [Some 5, Some 0] example_farmers))))) = Some 1"
  by code_simp

text \<open>
  C6, amended. For every accepted claim request on an existing, unclaimed
  recommendation whose items all lack a usable \<^verbatim>\<open>treatment_days\<close> (NULL or zero),
  the route fails with HTTP 500 (the \<^verbatim>\<open>ValueError\<close> of \<^verbatim>\<open>max()\<close> on an empty
  sequence) before it calls \<^verbatim>\<open>claim_recommendation\<close>: the store is unchanged, so
  the recommendation remains unclaimed and no item dates are written.
\<close>

theorem nothing_usable_fails_before_claim:
  assumes "request_accepted w rid req db shop_id r start"
    and "get_recommendation_items_by_recommendation_id rid db \<noteq> []"
    and "\<forall>(i, it) \<in> set (get_recommendation_items_by_recommendation_id rid db).
           treatment_days it = None \<or> treatment_days it = Some 0"
  shows "claim_recommendation_route cfg w rid req db =
           (\<lparr>status = 500, body = Failed ValueError\<rparr>, db, [])"
  using route_after_acceptance [OF assms(1)] assms(2)
    max_treatment_days_of_nothing_usable [OF assms(3)]
  by simp

text \<open>On the example, with one item of 0 days and one without treatment days.\<close>

theorem nothing_usable_fails_before_claim_witness:
  "claim_recommendation_route example_config (example_world (\<lambda>n. Status 200) []) 1
     example_request (example_database [Some 0, None] example_farmers) =
   (\<lparr>status = 500, body = Failed ValueError\<rparr>,
    example_database [Some 0, None] example_farmers, [])"
  by (rule nothing_usable_fails_before_claim [OF example_accepted])
     (simp_all add: example_items example_item_def del: One_nat_def)

text \<open>
  C4. The claim is that every request in which \<^verbatim>\<open>claim_recommendation\<close> has
  succeeded is answered 200. With a second item whose \<^verbatim>\<open>treatment_days\<close> is NULL the
  largest treatment length is computed (NULL is skipped there), the recommendation is
  claimed, the dates of the first item are written, and \<^verbatim>\<open>None - 1\<close> raises in the
  loop over the items: the route answers 500 for a recommendation that is now claimed.
  The second item has no dates and no message is sent. (A failure of the notification
  itself never changes the status: \<open>notification_never_fails_the_claim\<close>.)
\<close>

theorem null_treatment_days_fail_after_commit:
  "status (fst (claim_recommendation_route example_config (example_world (\<lambda>n. Status 200) []) 1
                  example_request (example_database [Some 5, None] example_farmers))) = 500
   \<and> body (fst (claim_recommendation_route example_config (example_world (\<lambda>n. Status 200) []) 1
                  example_request (example_database [Some 5, None] example_farmers))) =
       Failed TypeError
   \<and> snd (snd (claim_recommendation_route example_config (example_world (\<lambda>n. Status 200) []) 1
                  example_request (example_database [Some 5, None] example_farmers))) =
       [StoreClaim 1 7 True, StoreItemDates 1 738886 738890]
   \<and> map_option is_claimed (get_recommendation_by_id 1
        (fst (snd (claim_recommendation_route example_config (example_world (\<lambda>n. Status 200) []) 1
                  example_request (example_database [Some 5, None] example_farmers))))) = Some 1
   \<and> map_option end_date (recommendation_items
        (fst (snd (claim_recommendation_route example_config (example_world (\<lambda>n. Status 200) []) 1
                  example_request (example_database [Some 5, None] example_farmers)))) 2) = Some None"
  by code_simp

subsection \<open>A recommendation without items\<close>

text \<open>
  C8, as stated, fails: for the unclaimed recommendation 1 without items the route
  answers 404, not 400.
\<close>

theorem no_items_answers_404:
  "map_option is_claimed (get_recommendation_by_id 1 (example_database [] example_farmers)) = Some 0
   \<and> get_recommendation_items_by_recommendation_id 1 (example_database [] example_farmers) = []
   \<and> status (fst (claim_recommendation_route example_config (example_world (\<lambda>n. Status 200) []) 1
                    example_request (example_database [] example_farmers))) = 404
   \<and> status (fst (claim_recommendation_route example_config (example_world (\<lambda>n. Status 200) []) 1
                    example_request (example_database [] example_farmers))) \<noteq> 400"
  by (simp add: example_unclaimed example_items route_after_acceptance [OF example_accepted]
        del: One_nat_def)

text \<open>
  C8, amended. For every accepted claim request where the recommendation exists and is
  unclaimed but its item list is empty, the endpoint answers HTTP 404 with the error
  \<^verbatim>\<open>No recommendation items found\<close>, and nothing is written.
\<close>

theorem no_items_is_not_found:
  assumes "request_accepted w rid req db shop_id r start"
    and "get_recommendation_items_by_recommendation_id rid db = []"
  shows "claim_recommendation_route cfg w rid req db =
           (\<lparr>status = 404, body = Error ''No recommendation items found''\<rparr>, db, [])"
  using route_after_acceptance [OF assms(1)] assms(2) by simp

text \<open>On the example without items.\<close>

theorem no_items_is_not_found_witness:
  "claim_recommendation_route example_config (example_world (\<lambda>n. Status 200) []) 1
     example_request (example_database [] example_farmers) =
   (\<lparr>status = 404, body = Error ''No recommendation items found''\<rparr>,
    example_database [] example_farmers, [])"
  by (rule no_items_is_not_found [OF example_accepted example_items(1)])

subsection \<open>A farmer without mobile number\<close>

text \<open>
  C10. Take a claim request that passes the checks, wins the conditional update, and
  whose items all have treatment days with dates in range (so that the loop over the
  items completes). If the farmer of the recommendation is not in the store, or has no
  mobile number (NULL or empty), the route makes no gateway call and answers 200 with
  \<^verbatim>\<open>whatsapp_sent = false\<close> and the message \<^verbatim>\<open>Farmer mobile number not available\<close>;
  the recommendation is claimed by the shop and every item has its dates.
\<close>

theorem missing_mobile_skips_gateway:
  assumes ready: "ready_to_claim w rid req db shop_id r start m e"
    and claimed: "fst (claim_recommendation rid shop_id (Some (request_notes req)) (clock w)
                        (apply_ops (concurrent_writes w) db))"
    and computable:
      "\<forall>(i, it) \<in> set (get_recommendation_items_by_recommendation_id rid db).
         \<exists>d e'. treatment_days it = Some d \<and> add_days start (d - 1) = Inr e'"
    and farmer:
      "case get_farmer_by_id (farmer_id r) db of
         None \<Rightarrow> True
       | Some f \<Rightarrow> mobile_no f = None \<or> mobile_no f = Some []"
  shows "\<exists>cr db' tr.
           claim_recommendation_route cfg w rid req db =
             (\<lparr>status = 200, body = Claimed cr\<rparr>, db', tr) \<and>
           whatsapp_sent cr = False \<and>
           whatsapp_message cr = ''Farmer mobile number not available'' \<and>
           (\<forall>p. GatewayPost p \<notin> set tr) \<and>
           (\<exists>u. get_recommendation_by_id rid db' = Some u \<and> is_claimed u = 1 \<and>
                claimed_by_shop_id u = Some shop_id) \<and>
           (\<forall>(i, it) \<in> set (get_recommendation_items_by_recommendation_id rid db).
              \<exists>d row. treatment_days it = Some d \<and> recommendation_items db' i = Some row \<and>
                      start_date row = Some start \<and> end_date row = Some (start + (d - 1)))"
proof -
  from route_after_commit [OF ready claimed computable, of cfg]
  obtain db2 tr1 u where
    u: "get_recommendation_by_id rid db2 = Some u" "is_claimed u = 1"
       "claimed_by_shop_id u = Some shop_id"
    and far: "farmers db2 = farmers db"
    and nogw: "\<forall>p. GatewayPost p \<notin> set tr1"
    and dates: "\<forall>(i, it) \<in> set (get_recommendation_items_by_recommendation_id rid db).
              \<exists>d row. treatment_days it = Some d \<and> recommendation_items db2 i = Some row \<and>
                      start_date row = Some start \<and> end_date row = Some (start + (d - 1))"
    and route: "claim_recommendation_route cfg w rid req db =
             (\<lparr>status = 200,
               body = Claimed
                 \<lparr>res_recommendation_id = rid, res_shop_id = shop_id,
                  res_claimed_at = clock w, res_start_date = start, res_end_date = e,
                  res_max_treatment_days = m, res_notes = request_notes req,
                  whatsapp_sent = fst (notify cfg (gateway w) r db2),
                  whatsapp_message = fst (snd (notify cfg (gateway w) r db2))\<rparr>\<rparr>,
              db2, StoreClaim rid shop_id True # tr1 @ snd (snd (notify cfg (gateway w) r db2)))"
    by blast
  have "get_farmer_by_id (farmer_id r) db2 = get_farmer_by_id (farmer_id r) db"
    by (simp add: get_farmer_by_id_def far)
  with farmer have n: "notify cfg (gateway w) r db2 =
                         (False, ''Farmer mobile number not available'', [])"
    by (intro notify_without_mobile) simp
  let ?cr = "\<lparr>res_recommendation_id = rid, res_shop_id = shop_id,
                  res_claimed_at = clock w, res_start_date = start, res_end_date = e,
                  res_max_treatment_days = m, res_notes = request_notes req,
                  whatsapp_sent = False,
                  whatsapp_message = ''Farmer mobile number not available''\<rparr>"
  have "claim_recommendation_route cfg w rid req db =
             (\<lparr>status = 200, body = Claimed ?cr\<rparr>, db2, [StoreClaim rid shop_id True] @ tr1) \<and>
           whatsapp_sent ?cr = False \<and>
           whatsapp_message ?cr = ''Farmer mobile number not available'' \<and>
           (\<forall>p. GatewayPost p \<notin> set ([StoreClaim rid shop_id True] @ tr1)) \<and>
           (\<exists>u. get_recommendation_by_id rid db2 = Some u \<and> is_claimed u = 1 \<and>
                claimed_by_shop_id u = Some shop_id) \<and>
           (\<forall>(i, it) \<in> set (get_recommendation_items_by_recommendation_id rid db).
              \<exists>d row. treatment_days it = Some d \<and> recommendation_items db2 i = Some row \<and>
                      start_date row = Some start \<and> end_date row = Some (start + (d - 1)))"
    using u nogw dates route n by simp
  then show ?thesis by blast
qed

text \<open>On the example, in a store without farmers.\<close>

theorem missing_mobile_skips_gateway_witness:
  "\<exists>cr db' tr.
     claim_recommendation_route example_config (example_world (\<lambda>n. Status 200) []) 1
       example_request (example_database [Some 5, Some 10, Some 3] Map.empty) =
       (\<lparr>status = 200, body = Claimed cr\<rparr>, db', tr) \<and>
     whatsapp_sent cr = False \<and>
     whatsapp_message cr = ''Farmer mobile number not available''"
proof -
  have claimed: "fst (claim_recommendation 1 7 (Some (request_notes example_request))
                (clock (example_world (\<lambda>n. Status 200) []))
                (apply_ops (concurrent_writes (example_world (\<lambda>n. Status 200) []))
                   (example_database [Some 5, Some 10, Some 3] Map.empty)))"
    by code_simp
  have computable:
    "\<forall>(i, it) \<in> set (get_recommendation_items_by_recommendation_id 1
                        (example_database [Some 5, Some 10, Some 3] Map.empty)).
       \<exists>d e'. treatment_days it = Some d \<and> add_days 738886 (d - 1) = Inr e'"
    by (simp add: example_items_3 example_item_def add_days_def del: One_nat_def)
  have farmer:
    "case get_farmer_by_id (farmer_id example_recommendation)
            (example_database [Some 5, Some 10, Some 3] Map.empty) of
       None \<Rightarrow> True
     | Some f \<Rightarrow> mobile_no f = None \<or> mobile_no f = Some []"
    by (simp add: get_farmer_by_id_def example_database_def)
  from missing_mobile_skips_gateway [OF example_ready_5_10_3 claimed computable farmer,
      of example_config]
  show ?thesis by blast
qed

end
